theory Spec2Isabelle
  imports Complex_Main
begin

section \<open>Voter duplicate detection: the engine of app.py\<close>

text \<open>
  This theory embeds the duplicate-detection engine of \<^verbatim>\<open>src/app.py\<close>: the three field
  metrics (\<^verbatim>\<open>calculate_name_similarity\<close>, \<^verbatim>\<open>calculate_address_similarity\<close>,
  \<^verbatim>\<open>calculate_dob_difference\<close>) and the scan \<^verbatim>\<open>detect_duplicates\<close> with its nested
  loops, its \<^verbatim>\<open>compared\<close> set and its tiered decision.

  Conventions of the embedding.
  \<^item> A table cell is \<open>NaN\<close> (what \<^verbatim>\<open>pd.isna\<close> accepts: an empty CSV cell) or \<open>Str s\<close>, the
    text \<^verbatim>\<open>str(cell)\<close> of the cell. Strings are ASCII.
  \<^item> A row (\<^verbatim>\<open>df.iloc[i]\<close>, a Series) is a map from column labels to cells; reading a
    label that is absent raises \<^verbatim>\<open>KeyError\<close>, here the value \<open>Inl (KeyError label)\<close>.
  \<^item> Python floats are modelled by exact rationals: the arithmetic of the source is
    written out operation by operation, without the rounding of binary floating point.
  \<^item> The string measures of the \<^verbatim>\<open>fuzzywuzzy\<close> package and \<^verbatim>\<open>pd.to_datetime\<close> are not
    code of this repository; they are parameters, gathered in the record \<open>library\<close>.
  \<^item> The Streamlit progress bar and status text have no influence on the result and
    are left out.
\<close>

subsection \<open>Cells, rows, errors\<close>

datatype cell = NaN | Str string

type_synonym row = "string \<rightharpoonup> cell"

type_synonym dataframe = "row list"

datatype error = KeyError string

definition isna :: "cell \<Rightarrow> bool" where
  "isna c = (case c of NaN \<Rightarrow> True | Str _ \<Rightarrow> False)"

text \<open>\<^verbatim>\<open>str(x)\<close>; the text of a missing value is \<^verbatim>\<open>'nan'\<close> (never reached: every call is
  guarded by \<^verbatim>\<open>pd.isna\<close>).\<close>

definition str :: "cell \<Rightarrow> string" where
  "str c = (case c of NaN \<Rightarrow> ''nan'' | Str s \<Rightarrow> s)"

text \<open>\<^verbatim>\<open>record[label]\<close>.\<close>

definition getitem :: "row \<Rightarrow> string \<Rightarrow> error + cell" where
  "getitem record label = (case record label of None \<Rightarrow> Inl (KeyError label) | Some v \<Rightarrow> Inr v)"

text \<open>Sequencing of computations that may raise: the first error aborts.\<close>

definition bind_err :: "error + 'a \<Rightarrow> ('a \<Rightarrow> error + 'b) \<Rightarrow> error + 'b" where
  "bind_err m f = (case m of Inl e \<Rightarrow> Inl e | Inr v \<Rightarrow> f v)"

subsection \<open>The external library\<close>

text \<open>
  The four measures of \<^verbatim>\<open>fuzzywuzzy.fuzz\<close> (integers) and \<^verbatim>\<open>pd.to_datetime\<close>. A
  Timestamp is its number of nanoseconds since the epoch, and is either without a time
  zone or with one; \<open>None\<close> stands for a text that \<^verbatim>\<open>pd.to_datetime\<close> rejects by raising.
  A text that \<^verbatim>\<open>pd.to_datetime\<close> reads as \<^verbatim>\<open>NaT\<close> (the text \<^verbatim>\<open>NaT\<close> itself), for which the
  source returns the float \<^verbatim>\<open>nan\<close> instead of a number of days, is outside the model.
\<close>

datatype timestamp = Naive int | Aware int

record library =
  ratio :: "string \<Rightarrow> string \<Rightarrow> int"
  partial_ratio :: "string \<Rightarrow> string \<Rightarrow> int"
  token_sort_ratio :: "string \<Rightarrow> string \<Rightarrow> int"
  token_set_ratio :: "string \<Rightarrow> string \<Rightarrow> int"
  to_datetime :: "string \<Rightarrow> timestamp option"

subsection \<open>Python string operations\<close>

text \<open>\<^verbatim>\<open>str.strip()\<close> removes leading and trailing whitespace: the ASCII characters
  9 to 13, 28 to 31 and the space.\<close>

definition isspace :: "char \<Rightarrow> bool" where
  "isspace c = (let n = (of_char c :: nat) in (9 \<le> n \<and> n \<le> 13) \<or> (28 \<le> n \<and> n \<le> 32))"

definition strip :: "string \<Rightarrow> string" where
  "strip s = rev (dropWhile isspace (rev (dropWhile isspace s)))"

definition upper_char :: "char \<Rightarrow> char" where
  "upper_char c = (let n = (of_char c :: nat) in if 97 \<le> n \<and> n \<le> 122 then char_of (n - 32) else c)"

definition upper :: "string \<Rightarrow> string" where
  "upper s = map upper_char s"

text \<open>\<^verbatim>\<open>sep.join(parts)\<close>.\<close>

fun join :: "string \<Rightarrow> string list \<Rightarrow> string" where
  "join sep [] = []"
| "join sep [x] = x"
| "join sep (x # y # ys) = x @ sep @ join sep (y # ys)"

subsection \<open>Formatting numbers\<close>

definition digit_char :: "nat \<Rightarrow> char" where
  "digit_char d = ''0123456789'' ! (d mod 10)"

fun show_nat :: "nat \<Rightarrow> string" where
  "show_nat n = (if n < 10 then [digit_char n] else show_nat (n div 10) @ [digit_char (n mod 10)])"

declare show_nat.simps [simp del]

text \<open>\<^verbatim>\<open>f"{n}"\<close> for an integer.\<close>

definition show_int :: "int \<Rightarrow> string" where
  "show_int n = (if n < 0 then ''-'' @ show_nat (nat (- n)) else show_nat (nat n))"

text \<open>Rounding to the nearest integer, ties to the even one.\<close>

definition round_half_even :: "rat \<Rightarrow> int" where
  "round_half_even x =
     (let f = \<lfloor>x\<rfloor>; r = x - of_int f
      in if r < 1 / 2 then f else if 1 / 2 < r then f + 1 else if even f then f else f + 1)"

text \<open>\<^verbatim>\<open>f"{x:.1f}"\<close>: one digit after the point.\<close>

definition fmt_1f :: "rat \<Rightarrow> string" where
  "fmt_1f x =
     (let t = nat (round_half_even (\<bar>x\<bar> * 10))
      in (if x < 0 then ''-'' else '''') @ show_nat (t div 10) @ ''.'' @ [digit_char (t mod 10)])"

subsection \<open>Field similarity metrics\<close>

definition calculate_name_similarity :: "library \<Rightarrow> cell \<Rightarrow> cell \<Rightarrow> rat" where
  "calculate_name_similarity lib name1 name2 =
     (if isna name1 \<or> isna name2 then 0
      else
        let n1 = upper (strip (str name1));
            n2 = upper (strip (str name2));
            r = ratio lib n1 n2;
            p = partial_ratio lib n1 n2;
            tsort = token_sort_ratio lib n1 n2;
            tset = token_set_ratio lib n1 n2
        in of_int r * (3 / 10) + of_int p * (2 / 10) + of_int tsort * (25 / 100)
             + of_int tset * (25 / 100))"

definition calculate_address_similarity :: "library \<Rightarrow> cell \<Rightarrow> cell \<Rightarrow> int" where
  "calculate_address_similarity lib addr1 addr2 =
     (if isna addr1 \<or> isna addr2 then 0
      else
        let a1 = upper (strip (str addr1));
            a2 = upper (strip (str addr2))
        in token_set_ratio lib a1 a2)"

text \<open>Nanoseconds in a day: \<^verbatim>\<open>Timedelta.days\<close> is the difference divided by it, rounded
  down (a negative half day has \<^verbatim>\<open>days == -1\<close>).\<close>

definition ns_per_day :: int where
  "ns_per_day = 86400000000000"

definition days :: "int \<Rightarrow> int" where
  "days delta = delta div ns_per_day"

text \<open>\<^verbatim>\<open>date1 - date2\<close>: the difference in nanoseconds; \<open>None\<close> when one Timestamp has a
  time zone and the other has none, where pandas raises \<^verbatim>\<open>TypeError\<close>.\<close>

definition timedelta :: "timestamp \<Rightarrow> timestamp \<Rightarrow> int option" where
  "timedelta date1 date2 =
     (case (date1, date2) of
        (Naive a, Naive b) \<Rightarrow> Some (a - b)
      | (Aware a, Aware b) \<Rightarrow> Some (a - b)
      | _ \<Rightarrow> None)"

text \<open>The \<^verbatim>\<open>try\<close> block with its bare \<^verbatim>\<open>except\<close>: a text that \<^verbatim>\<open>pd.to_datetime\<close> rejects and
  a subtraction that raises give the sentinel as well.\<close>

definition calculate_dob_difference :: "library \<Rightarrow> cell \<Rightarrow> cell \<Rightarrow> int" where
  "calculate_dob_difference lib dob1 dob2 =
     (if isna dob1 \<or> isna dob2 then 999999
      else
        (case to_datetime lib (str dob1) of
           None \<Rightarrow> 999999
         | Some date1 \<Rightarrow>
             (case to_datetime lib (str dob2) of
                None \<Rightarrow> 999999
              | Some date2 \<Rightarrow>
                  (case timedelta date1 date2 of
                     None \<Rightarrow> 999999
                   | Some delta \<Rightarrow> \<bar>days delta\<bar>))))"

subsection \<open>The decision for one pair\<close>

text \<open>One row of the result: the dictionary appended to \<^verbatim>\<open>duplicates\<close>.\<close>

record duplicate =
  Record_1_Index :: nat
  Record_2_Index :: nat
  Voter_ID_1 :: cell
  Voter_ID_2 :: cell
  Name_1 :: cell
  Name_2 :: cell
  DOB_1 :: cell
  DOB_2 :: cell
  Address_1 :: cell
  Address_2 :: cell
  Name_Similarity :: rat
  DOB_Difference_Days :: int
  Address_Similarity :: int
  Confidence_Score :: rat
  Detection_Reasons :: string

text \<open>The \<^verbatim>\<open>if\<close>/\<^verbatim>\<open>elif\<close> chain (lines 143 to 166): \<^verbatim>\<open>is_duplicate\<close>, \<^verbatim>\<open>confidence\<close> and
  \<^verbatim>\<open>reasons\<close>.\<close>

definition classify ::
  "rat \<Rightarrow> int \<Rightarrow> int \<Rightarrow> int \<Rightarrow> int \<Rightarrow> bool \<Rightarrow> int \<Rightarrow> bool \<times> rat \<times> string list" where
  "classify name_sim dob_diff addr_sim name_threshold dob_tolerance_days check_addr addr_threshold =
     (if 95 \<le> name_sim then
        (True, name_sim, [''High name similarity ('' @ fmt_1f name_sim @ ''%)''])
      else if of_int name_threshold \<le> name_sim \<and> dob_diff \<le> dob_tolerance_days then
        (True, (name_sim + (100 - of_int dob_diff / 365 * 100)) / 2,
         [''Name similarity ('' @ fmt_1f name_sim @ ''%)'',
          ''DOB difference ('' @ show_int dob_diff @ '' days)''])
      else if of_int name_threshold \<le> name_sim \<and> check_addr \<and> addr_threshold \<le> addr_sim then
        (True, (name_sim + of_int addr_sim) / 2,
         [''Name similarity ('' @ fmt_1f name_sim @ ''%)'',
          ''Address similarity ('' @ fmt_1f (of_int addr_sim) @ ''%)''])
      else (False, 0, []))"

text \<open>The body of the inner loop for the positions \<open>i\<close> and \<open>j\<close> (lines 125 to 185):
  \<open>Inr None\<close> when nothing is appended, \<open>Inr (Some d)\<close> when \<open>d\<close> is appended, \<open>Inl e\<close>
  when a column read raises. The columns are read in the order of the source.\<close>

definition compare_pair ::
  "library \<Rightarrow> dataframe \<Rightarrow> int \<Rightarrow> int \<Rightarrow> bool \<Rightarrow> int \<Rightarrow> nat \<Rightarrow> nat \<Rightarrow> error + duplicate option" where
  "compare_pair lib df name_threshold dob_tolerance_days check_addr addr_threshold i j =
     (let record1 = df ! i; record2 = df ! j in
      bind_err (getitem record1 ''Full_Name'') (\<lambda>name1.
      bind_err (getitem record2 ''Full_Name'') (\<lambda>name2.
      let name_sim = calculate_name_similarity lib name1 name2 in
      if name_sim < of_int name_threshold then Inr None
      else
        bind_err (getitem record1 ''Date_of_Birth'') (\<lambda>dob1.
        bind_err (getitem record2 ''Date_of_Birth'') (\<lambda>dob2.
        let dob_diff = calculate_dob_difference lib dob1 dob2 in
        bind_err
          (if check_addr then
             bind_err (getitem record1 ''Address'') (\<lambda>addr1.
             bind_err (getitem record2 ''Address'') (\<lambda>addr2.
             Inr (calculate_address_similarity lib addr1 addr2)))
           else Inr 0) (\<lambda>addr_sim.
        case classify name_sim dob_diff addr_sim name_threshold dob_tolerance_days
               check_addr addr_threshold of
          (is_duplicate, confidence, reasons) \<Rightarrow>
            if is_duplicate then
              bind_err (getitem record1 ''Voter_ID'') (\<lambda>id1.
              bind_err (getitem record2 ''Voter_ID'') (\<lambda>id2.
              bind_err (getitem record1 ''Full_Name'') (\<lambda>n1.
              bind_err (getitem record2 ''Full_Name'') (\<lambda>n2.
              bind_err (getitem record1 ''Date_of_Birth'') (\<lambda>d1.
              bind_err (getitem record2 ''Date_of_Birth'') (\<lambda>d2.
              bind_err (getitem record1 ''Address'') (\<lambda>a1.
              bind_err (getitem record2 ''Address'') (\<lambda>a2.
              Inr (Some \<lparr>Record_1_Index = i, Record_2_Index = j,
                    Voter_ID_1 = id1, Voter_ID_2 = id2,
                    Name_1 = n1, Name_2 = n2,
                    DOB_1 = d1, DOB_2 = d2,
                    Address_1 = a1, Address_2 = a2,
                    Name_Similarity = name_sim,
                    DOB_Difference_Days = dob_diff,
                    Address_Similarity = addr_sim,
                    Confidence_Score = confidence,
                    Detection_Reasons = join '' | '' reasons\<rparr>)))))))))
            else Inr None))))))"

subsection \<open>The scan\<close>

text \<open>The state of the loops: the list \<^verbatim>\<open>duplicates\<close> and the set \<^verbatim>\<open>compared\<close>.\<close>

record scan_state =
  duplicates :: "duplicate list"
  compared :: "(nat \<times> nat) set"

text \<open>\<^verbatim>\<open>tuple(sorted([i, j]))\<close>.\<close>

definition sorted_pair :: "nat \<Rightarrow> nat \<Rightarrow> nat \<times> nat" where
  "sorted_pair i j = (min i j, max i j)"

text \<open>The inner loop, \<^verbatim>\<open>for j in range(i + 1, n)\<close>, over the positions still to visit; the
  parameter \<open>body\<close> is the comparison of one pair.\<close>

fun inner_loop ::
  "(nat \<Rightarrow> nat \<Rightarrow> error + duplicate option) \<Rightarrow> nat \<Rightarrow> nat list \<Rightarrow> scan_state \<Rightarrow> error + scan_state" where
  "inner_loop body i [] s = Inr s"
| "inner_loop body i (j # js) s =
     (let pair = sorted_pair i j in
      if pair \<in> compared s then inner_loop body i js s
      else
        (let s1 = s\<lparr>compared := insert pair (compared s)\<rparr> in
         case body i j of
           Inl e \<Rightarrow> Inl e
         | Inr None \<Rightarrow> inner_loop body i js s1
         | Inr (Some d) \<Rightarrow> inner_loop body i js (s1\<lparr>duplicates := duplicates s1 @ [d]\<rparr>)))"

text \<open>The outer loop, \<^verbatim>\<open>for i in range(n)\<close>.\<close>

fun outer_loop ::
  "(nat \<Rightarrow> nat \<Rightarrow> error + duplicate option) \<Rightarrow> nat \<Rightarrow> nat list \<Rightarrow> scan_state \<Rightarrow> error + scan_state" where
  "outer_loop body n [] s = Inr s"
| "outer_loop body n (i # is) s =
     (case inner_loop body i [i + 1..<n] s of
        Inl e \<Rightarrow> Inl e
      | Inr s1 \<Rightarrow> outer_loop body n is s1)"

definition detect_duplicates ::
  "library \<Rightarrow> dataframe \<Rightarrow> int \<Rightarrow> int \<Rightarrow> bool \<Rightarrow> int \<Rightarrow> error + duplicate list" where
  "detect_duplicates lib df name_threshold dob_tolerance_days check_addr addr_threshold =
     (let n = length df in
      case outer_loop (compare_pair lib df name_threshold dob_tolerance_days check_addr addr_threshold)
             n [0..<n] \<lparr>duplicates = [], compared = {}\<rparr> of
        Inl e \<Rightarrow> Inl e
      | Inr s \<Rightarrow> Inr (duplicates s))"

subsection \<open>Required columns\<close>

text \<open>The columns the scan reads (the CSV format the application documents).\<close>

definition required_columns :: "string list" where
  "required_columns = [''Voter_ID'', ''Full_Name'', ''Date_of_Birth'', ''Address'']"

definition has_columns :: "row \<Rightarrow> bool" where
  "has_columns r = list_all (\<lambda>c. r c \<noteq> None) required_columns"

definition well_formed :: "dataframe \<Rightarrow> bool" where
  "well_formed df = list_all has_columns df"

text \<open>A table lacks a column when no row has it.\<close>

definition lacks_column :: "dataframe \<Rightarrow> string \<Rightarrow> bool" where
  "lacks_column df c = list_all (\<lambda>r. r c = None) df"

subsection \<open>The scan as one classification per enumerated pair\<close>

text \<open>The positions the nested ranges visit, in the order of the visit:
  \<^verbatim>\<open>[(i, j) for i in range(n) for j in range(i + 1, n)]\<close>.\<close>

definition pairs_of :: "nat \<Rightarrow> (nat \<times> nat) list" where
  "pairs_of n = concat (map (\<lambda>i. map (Pair i) [i + 1..<n]) [0..<n])"

text \<open>What one comparison contributes to the result.\<close>

definition emitted :: "error + duplicate option \<Rightarrow> duplicate list" where
  "emitted r = (case r of Inr (Some d) \<Rightarrow> [d] | _ \<Rightarrow> [])"

text \<open>One comparison per listed pair, in order; the first error aborts.\<close>

fun run_pairs :: "(nat \<Rightarrow> nat \<Rightarrow> error + duplicate option) \<Rightarrow> (nat \<times> nat) list \<Rightarrow> error + duplicate list" where
  "run_pairs body [] = Inr []"
| "run_pairs body (p # ps) =
     (case body (fst p) (snd p) of
        Inl e \<Rightarrow> Inl e
      | Inr r \<Rightarrow> (case run_pairs body ps of Inl e \<Rightarrow> Inl e | Inr ds \<Rightarrow> Inr (emitted (Inr r) @ ds)))"

subsection \<open>The scan without the set of compared pairs\<close>

text \<open>The loops of \<^verbatim>\<open>detect_duplicates\<close> with the set \<^verbatim>\<open>compared\<close> and its test removed, as the
  design notes of the specification propose: the order \<open>i < j\<close> of the nested ranges
  alone keeps a pair from being visited twice.\<close>

fun inner_loop_noset ::
  "(nat \<Rightarrow> nat \<Rightarrow> error + duplicate option) \<Rightarrow> nat \<Rightarrow> nat list \<Rightarrow> duplicate list \<Rightarrow> error + duplicate list" where
  "inner_loop_noset body i [] ds = Inr ds"
| "inner_loop_noset body i (j # js) ds =
     (case body i j of
        Inl e \<Rightarrow> Inl e
      | Inr None \<Rightarrow> inner_loop_noset body i js ds
      | Inr (Some d) \<Rightarrow> inner_loop_noset body i js (ds @ [d]))"

fun outer_loop_noset ::
  "(nat \<Rightarrow> nat \<Rightarrow> error + duplicate option) \<Rightarrow> nat \<Rightarrow> nat list \<Rightarrow> duplicate list \<Rightarrow> error + duplicate list" where
  "outer_loop_noset body n [] ds = Inr ds"
| "outer_loop_noset body n (i # is) ds =
     (case inner_loop_noset body i [i + 1..<n] ds of
        Inl e \<Rightarrow> Inl e
      | Inr ds1 \<Rightarrow> outer_loop_noset body n is ds1)"

definition detect_duplicates_noset ::
  "library \<Rightarrow> dataframe \<Rightarrow> int \<Rightarrow> int \<Rightarrow> bool \<Rightarrow> int \<Rightarrow> error + duplicate list" where
  "detect_duplicates_noset lib df name_threshold dob_tolerance_days check_addr addr_threshold =
     (let n = length df in
      outer_loop_noset (compare_pair lib df name_threshold dob_tolerance_days check_addr addr_threshold)
        n [0..<n] [])"

subsection \<open>Conditions used in the statements\<close>

text \<open>The row \<open>r\<close> has the four required columns, with these cells (it may have more
  columns).\<close>

definition row_is :: "row \<Rightarrow> cell \<Rightarrow> cell \<Rightarrow> cell \<Rightarrow> cell \<Rightarrow> bool" where
  "row_is r vid name dob addr =
     (r ''Voter_ID'' = Some vid \<and> r ''Full_Name'' = Some name \<and>
      r ''Date_of_Birth'' = Some dob \<and> r ''Address'' = Some addr)"

text \<open>The bounds of the three sliders of the sidebar (lines 29 to 52): the name threshold
  and the address threshold between 50 and 100, the tolerance between 0 and 365 days.\<close>

definition settings_in_range :: "int \<Rightarrow> int \<Rightarrow> int \<Rightarrow> bool" where
  "settings_in_range name_threshold dob_tolerance_days addr_threshold =
     (50 \<le> name_threshold \<and> name_threshold \<le> 100 \<and>
      0 \<le> dob_tolerance_days \<and> dob_tolerance_days \<le> 365 \<and>
      50 \<le> addr_threshold \<and> addr_threshold \<le> 100)"

text \<open>A row of the result was flagged by the third tier when its reasons are those the
  third tier writes: the name similarity and the address similarity.\<close>

definition flagged_by_tier3 :: "duplicate \<Rightarrow> bool" where
  "flagged_by_tier3 d =
     (Detection_Reasons d =
        join '' | '' [''Name similarity ('' @ fmt_1f (Name_Similarity d) @ ''%)'',
                      ''Address similarity ('' @ fmt_1f (of_int (Address_Similarity d)) @ ''%)''])"

subsection \<open>Sample data\<close>

text \<open>
  An instance of the library for the examples below. It holds what \<^verbatim>\<open>fuzzywuzzy\<close> returns on
  the texts the examples use, and is not a model of the package elsewhere:
  \<^item> every measure is 100 on equal texts;
  \<^item> on \<^verbatim>\<open>RAVI KUMAR\<close> against \<^verbatim>\<open>RAVI KUMARR\<close> (one letter inserted: twenty of twenty-one
    characters matched) the ratio, the token-sort ratio and the token-set ratio are 95
    and the partial ratio is 100, the parameter \<open>near\<close>;
  \<^item> on \<^verbatim>\<open>RAVI KUMAR\<close> against \<^verbatim>\<open>RAVI KUAMR\<close> (two letters transposed: eighteen of twenty
    characters matched) the four measures are 90;
  \<^item> every measure is 0 on two texts with no character in common, and the examples
    compare no other kind of pair.
\<close>

definition sample_measure :: "int \<Rightarrow> string \<Rightarrow> string \<Rightarrow> int" where
  "sample_measure near a b =
     (if a = b then 100
      else if (a = ''RAVI KUMAR'' \<and> b = ''RAVI KUMARR'') \<or> (a = ''RAVI KUMARR'' \<and> b = ''RAVI KUMAR'')
      then near
      else if (a = ''RAVI KUMAR'' \<and> b = ''RAVI KUAMR'') \<or> (a = ''RAVI KUAMR'' \<and> b = ''RAVI KUMAR'')
      then 90
      else 0)"

text \<open>\<^verbatim>\<open>pd.to_datetime\<close> on the date texts of the examples: Timestamps without a time
  zone, in nanoseconds since 1970-01-01; the examples hold no other date text.\<close>

definition sample_to_datetime :: "string \<Rightarrow> timestamp option" where
  "sample_to_datetime s =
     map_of [(''1970-01-01'', Naive 0), (''1970-01-01 12:00:00'', Naive 43200000000000),
             (''1970-01-02'', Naive 86400000000000), (''1971-01-01'', Naive 31536000000000000),
             (''1972-01-01'', Naive 63072000000000000)] s"

definition sample_lib :: library where
  "sample_lib = \<lparr>ratio = sample_measure 95, partial_ratio = sample_measure 100,
     token_sort_ratio = sample_measure 95, token_set_ratio = sample_measure 95,
     to_datetime = sample_to_datetime\<rparr>"

text \<open>A row with the four required columns, and a table without the column \<open>c\<close>.\<close>

definition voter :: "string \<Rightarrow> cell \<Rightarrow> cell \<Rightarrow> cell \<Rightarrow> row" where
  "voter vid name dob addr =
     [''Voter_ID'' \<mapsto> Str vid, ''Full_Name'' \<mapsto> name, ''Date_of_Birth'' \<mapsto> dob, ''Address'' \<mapsto> addr]"

definition drop_column :: "string \<Rightarrow> dataframe \<Rightarrow> dataframe" where
  "drop_column c df = map (\<lambda>r. r(c := None)) df"

text \<open>Four rows: two names one letter apart, and one name in two spellings of case.\<close>

definition sample_table :: dataframe where
  "sample_table =
     [voter ''V1'' (Str ''RAVI KUMAR'') (Str ''1970-01-01'') (Str ''PUNE''),
      voter ''V2'' (Str ''JOHN'') (Str ''1970-01-02'') (Str ''GOA''),
      voter ''V3'' (Str ''ravi kumarr '') (Str ''1970-01-02'') (Str ''PUNE''),
      voter ''V4'' (Str ''John'') (Str ''1972-01-01'') (Str ''goa'')]"

text \<open>Two rows whose names differ by one inserted letter; the birth dates are two years
  apart and the addresses have nothing in common.\<close>

definition near_table :: dataframe where
  "near_table =
     [voter ''V1'' (Str ''RAVI KUMAR'') (Str ''1970-01-01'') (Str ''PUNE''),
      voter ''V2'' (Str ''RAVI KUMARR'') (Str ''1972-01-01'') (Str ''GOA'')]"

text \<open>Two rows whose names differ by two transposed letters: born one day apart; born
  two years apart; born two years apart at the same address.\<close>

definition typo_table :: dataframe where
  "typo_table =
     [voter ''V1'' (Str ''RAVI KUMAR'') (Str ''1970-01-01'') (Str ''PUNE''),
      voter ''V2'' (Str ''RAVI KUAMR'') (Str ''1970-01-02'') (Str ''GOA'')]"

definition far_table :: dataframe where
  "far_table =
     [voter ''V1'' (Str ''RAVI KUMAR'') (Str ''1970-01-01'') (Str ''PUNE''),
      voter ''V2'' (Str ''RAVI KUAMR'') (Str ''1972-01-01'') (Str ''GOA'')]"

definition tier3_table :: dataframe where
  "tier3_table =
     [voter ''V1'' (Str ''RAVI KUMAR'') (Str ''1970-01-01'') (Str ''PUNE''),
      voter ''V2'' (Str ''RAVI KUAMR'') (Str ''1972-01-01'') (Str ''PUNE'')]"

text \<open>Two rows with the same name, the first without birth date and address; and the same
  two rows with other addresses.\<close>

definition missing_table :: dataframe where
  "missing_table =
     [voter ''V1'' (Str ''RAVI KUMAR'') NaN NaN,
      voter ''V2'' (Str ''RAVI KUMAR'') (Str ''1970-01-01'') (Str ''PUNE'')]"

definition readdressed_table :: dataframe where
  "readdressed_table =
     [voter ''V1'' (Str ''RAVI KUMAR'') NaN (Str ''GOA''),
      voter ''V2'' (Str ''RAVI KUMAR'') (Str ''1970-01-01'') (Str ''DELHI'')]"

text \<open>Two and three rows without the column of the birth dates, and two rows without
  the column of the names.\<close>

definition no_dob_pair :: dataframe where
  "no_dob_pair = drop_column ''Date_of_Birth''
     [voter ''V1'' (Str ''RAVI KUMAR'') (Str ''1970-01-01'') (Str ''PUNE''),
      voter ''V2'' (Str ''JOHN'') (Str ''1970-01-02'') (Str ''GOA'')]"

definition no_dob_three :: dataframe where
  "no_dob_three = drop_column ''Date_of_Birth''
     [voter ''V1'' (Str ''RAVI KUMAR'') (Str ''1970-01-01'') (Str ''PUNE''),
      voter ''V2'' (Str ''JOHN'') (Str ''1970-01-02'') (Str ''GOA''),
      voter ''V3'' (Str ''RAVI KUMAR'') (Str ''1970-01-01'') (Str ''PUNE'')]"

definition no_name_pair :: dataframe where
  "no_name_pair = drop_column ''Full_Name''
     [voter ''V1'' (Str ''RAVI KUMAR'') (Str ''1970-01-01'') (Str ''PUNE''),
      voter ''V2'' (Str ''JOHN'') (Str ''1970-01-02'') (Str ''GOA'')]"

section \<open>Auxiliary facts\<close>

subsection \<open>The loops visit every pair once\<close>

text \<open>The nested loops, with or without the set of compared pairs, run one comparison per pair of the enumeration.\<close>

lemma run_pairs_append:
  "run_pairs body (ps @ qs) =
     (case run_pairs body ps of
        Inl e \<Rightarrow> Inl e
      | Inr ds \<Rightarrow> (case run_pairs body qs of Inl e \<Rightarrow> Inl e | Inr es \<Rightarrow> Inr (ds @ es)))"
  by (induction ps) (auto split: sum.splits)

lemma inner_loop_run:
  assumes "\<forall>j \<in> set js. i < j \<and> (i, j) \<notin> compared s" and "distinct js"
  shows "inner_loop body i js s =
     (case run_pairs body (map (Pair i) js) of
        Inl e \<Rightarrow> Inl e
      | Inr ds \<Rightarrow> Inr \<lparr>duplicates = duplicates s @ ds, compared = compared s \<union> Pair i ` set js\<rparr>)"
  using assms
proof (induction js arbitrary: s)
  case Nil
  then show ?case by simp
next
  case (Cons j js)
  have key: "sorted_pair i j = (i, j)" using Cons.prems by (simp add: sorted_pair_def)
  have notin: "(i, j) \<notin> compared s" using Cons.prems by simp
  let ?s1 = "s\<lparr>compared := insert (i, j) (compared s)\<rparr>"
  have pre1: "\<forall>k \<in> set js. i < k \<and> (i, k) \<notin> compared ?s1"
    using Cons.prems by auto
  have d: "distinct js" using Cons.prems by simp
  show ?case
  proof (cases "body i j")
    case (Inl e)
    then show ?thesis using key notin by simp
  next
    case (Inr r)
    show ?thesis
    proof (cases r)
      case None
      then show ?thesis
        using Inr key notin Cons.IH [OF pre1 d]
        by (simp add: emitted_def split: sum.splits)
    next
      case (Some d0)
      let ?s2 = "?s1\<lparr>duplicates := duplicates ?s1 @ [d0]\<rparr>"
      have pre2: "\<forall>k \<in> set js. i < k \<and> (i, k) \<notin> compared ?s2"
        using Cons.prems by auto
      show ?thesis
        using Some Inr key notin Cons.IH [OF pre2 d]
        by (simp add: emitted_def split: sum.splits)
    qed
  qed
qed

lemma inner_loop_noset_run:
  "inner_loop_noset body i js ds =
     (case run_pairs body (map (Pair i) js) of Inl e \<Rightarrow> Inl e | Inr es \<Rightarrow> Inr (ds @ es))"
  by (induction js arbitrary: ds) (auto simp: emitted_def split: sum.splits option.splits)

lemma outer_loop_run:
  assumes "\<forall>i \<in> set is. \<forall>j. (i, j) \<notin> compared s" and "distinct is"
  shows "outer_loop body n is s =
     (case run_pairs body (concat (map (\<lambda>i. map (Pair i) [i + 1..<n]) is)) of
        Inl e \<Rightarrow> Inl e
      | Inr ds \<Rightarrow> Inr \<lparr>duplicates = duplicates s @ ds,
                      compared = compared s \<union> (\<Union>i \<in> set is. Pair i ` set [i + 1..<n])\<rparr>)"
  using assms
proof (induction "is" arbitrary: s)
  case Nil
  then show ?case by simp
next
  case (Cons i "is")
  have inner: "inner_loop body i [i + 1..<n] s =
     (case run_pairs body (map (Pair i) [i + 1..<n]) of
        Inl e \<Rightarrow> Inl e
      | Inr ds \<Rightarrow> Inr \<lparr>duplicates = duplicates s @ ds, compared = compared s \<union> Pair i ` set [i + 1..<n]\<rparr>)"
    using Cons.prems by (intro inner_loop_run) auto
  show ?case
  proof (cases "run_pairs body (map (Pair i) [i + 1..<n])")
    case (Inl e)
    then show ?thesis using inner by (simp add: run_pairs_append)
  next
    case (Inr ds)
    let ?s1 = "\<lparr>duplicates = duplicates s @ ds, compared = compared s \<union> Pair i ` set [i + 1..<n]\<rparr>"
    have pre: "\<forall>k \<in> set is. \<forall>j. (k, j) \<notin> compared ?s1"
      using Cons.prems by auto
    have d: "distinct is" using Cons.prems by simp
    show ?thesis
      using Inr inner Cons.IH [OF pre d]
      by (auto simp: run_pairs_append Un_assoc split: sum.splits)
  qed
qed

lemma outer_loop_noset_run:
  "outer_loop_noset body n is ds =
     (case run_pairs body (concat (map (\<lambda>i. map (Pair i) [i + 1..<n]) is)) of
        Inl e \<Rightarrow> Inl e | Inr es \<Rightarrow> Inr (ds @ es))"
  by (induction "is" arbitrary: ds)
     (auto simp: run_pairs_append inner_loop_noset_run split: sum.splits)

lemma detect_duplicates_run:
  "detect_duplicates lib df nt tol chk ath =
     run_pairs (compare_pair lib df nt tol chk ath) (pairs_of (length df))"
  by (simp add: detect_duplicates_def pairs_of_def outer_loop_run Let_def split: sum.splits)

lemma detect_duplicates_noset_run:
  "detect_duplicates_noset lib df nt tol chk ath =
     run_pairs (compare_pair lib df nt tol chk ath) (pairs_of (length df))"
  by (simp add: detect_duplicates_noset_def pairs_of_def outer_loop_noset_run Let_def split: sum.splits)

lemma set_pairs_of: "set (pairs_of n) = {(i, j). i < j \<and> j < n}"
proof (rule set_eqI)
  fix p :: "nat \<times> nat"
  obtain a b where p: "p = (a, b)" by (cases p)
  have "(a, b) \<in> set (pairs_of n) \<longleftrightarrow> a < b \<and> b < n"
    by (fastforce simp: pairs_of_def)
  then show "p \<in> set (pairs_of n) \<longleftrightarrow> p \<in> {(i, j). i < j \<and> j < n}"
    using p by simp
qed

lemma distinct_pairs_of: "distinct (pairs_of n)"
  unfolding pairs_of_def
proof (rule distinct_concat)
  show "distinct (map (\<lambda>i. map (Pair i) [i + 1..<n]) [0..<n])"
  proof (simp add: distinct_map, rule inj_onI)
    fix x y assume x: "x \<in> {0..<n}" and y: "y \<in> {0..<n}"
      and eq: "map (Pair x) [Suc x..<n] = map (Pair y) [Suc y..<n]"
    from eq have "length (map (Pair x) [Suc x..<n]) = length (map (Pair y) [Suc y..<n])"
      by simp
    then show "x = y" using x y by simp
  qed
next
  fix ys assume "ys \<in> set (map (\<lambda>i. map (Pair i) [i + 1..<n]) [0..<n])"
  then show "distinct ys" by (auto simp: distinct_map inj_on_def)
next
  fix ys zs
  assume "ys \<in> set (map (\<lambda>i. map (Pair i) [i + 1..<n]) [0..<n])"
    and "zs \<in> set (map (\<lambda>i. map (Pair i) [i + 1..<n]) [0..<n])" and "ys \<noteq> zs"
  then show "set ys \<inter> set zs = {}" by auto
qed

lemma sorted_pair_pairs_of:
  "map (\<lambda>(i, j). sorted_pair i j) (pairs_of n) = pairs_of n"
proof -
  have "\<forall>p \<in> set (pairs_of n). (\<lambda>(i, j). sorted_pair i j) p = p"
    by (auto simp: set_pairs_of sorted_pair_def)
  then show ?thesis by (simp add: map_idI)
qed

lemma pairs_of_short: "n < 2 \<Longrightarrow> pairs_of n = []"
proof -
  assume "n < 2"
  then have "n = 0 \<or> n = 1" by auto
  then show ?thesis by (auto simp: pairs_of_def)
qed

lemma pairs_of_first: "2 \<le> n \<Longrightarrow> \<exists>rest. pairs_of n = (0, 1) # rest"
proof -
  assume n: "2 \<le> n"
  then have a: "[0..<n] = 0 # [1..<n]" by (simp add: upt_conv_Cons)
  from n have b: "[Suc 0..<n] = Suc 0 # [Suc (Suc 0)..<n]" by (simp add: upt_conv_Cons)
  show ?thesis unfolding pairs_of_def a using b by simp
qed

lemma run_pairs_Inr_iff:
  "run_pairs body ps = Inr ds \<longleftrightarrow>
     (\<forall>p \<in> set ps. \<exists>r. body (fst p) (snd p) = Inr r) \<and>
     ds = concat (map (\<lambda>p. emitted (body (fst p) (snd p))) ps)"
proof (induction ps arbitrary: ds)
  case Nil
  then show ?case by auto
next
  case (Cons p ps)
  show ?case
  proof (cases "body (fst p) (snd p)")
    case (Inl e)
    then show ?thesis by simp
  next
    case (Inr r)
    show ?thesis
    proof (cases "run_pairs body ps")
      case (Inl e)
      then have "\<not> (\<forall>q \<in> set ps. \<exists>r. body (fst q) (snd q) = Inr r)"
        using Cons.IH by auto
      then show ?thesis using Inl Inr by auto
    next
      case rest: (Inr es)
      then have "(\<forall>q \<in> set ps. \<exists>r. body (fst q) (snd q) = Inr r)"
        and "es = concat (map (\<lambda>p. emitted (body (fst p) (snd p))) ps)"
        using Cons.IH [of es] by auto
      then show ?thesis using rest Inr by auto
    qed
  qed
qed

lemma run_pairs_Inl:
  assumes "run_pairs body ps = Inl e"
  shows "\<exists>ps1 i j ps2. ps = ps1 @ (i, j) # ps2
           \<and> (\<forall>p \<in> set ps1. \<exists>r. body (fst p) (snd p) = Inr r) \<and> body i j = Inl e"
  using assms
proof (induction ps)
  case Nil
  then show ?case by simp
next
  case (Cons p ps)
  show ?case
  proof (cases "body (fst p) (snd p)")
    case (Inl e')
    with Cons.prems have "e' = e" by simp
    with Inl have "p # ps = [] @ (fst p, snd p) # ps \<and> (\<forall>q \<in> set []. \<exists>r. body (fst q) (snd q) = Inr r)
        \<and> body (fst p) (snd p) = Inl e" by simp
    then show ?thesis by blast
  next
    case (Inr r)
    with Cons.prems have "run_pairs body ps = Inl e" by (simp split: sum.splits)
    from Cons.IH [OF this] obtain ps1 i j ps2 where
      s: "ps = ps1 @ (i, j) # ps2" and ok: "\<forall>q \<in> set ps1. \<exists>r. body (fst q) (snd q) = Inr r"
      and bad: "body i j = Inl e" by blast
    have "p # ps = (p # ps1) @ (i, j) # ps2" using s by simp
    moreover have "\<forall>q \<in> set (p # ps1). \<exists>r. body (fst q) (snd q) = Inr r" using ok Inr by simp
    ultimately show ?thesis using bad by blast
  qed
qed

lemma in_emitted: "d \<in> set (emitted r) \<longleftrightarrow> r = Inr (Some d)"
  by (auto simp: emitted_def split: sum.splits option.splits)

lemma emitted_cases:
  "emitted r = [] \<or> (\<exists>d. r = Inr (Some d) \<and> emitted r = [d])"
  by (auto simp: emitted_def split: sum.splits option.splits)

lemma concat_map_filter:
  assumes "\<And>p. p \<in> set ps \<Longrightarrow> f p = filter P (g p)"
  shows "concat (map f ps) = filter P (concat (map g ps))"
  using assms by (induction ps) auto

lemma concat_map_filter2:
  assumes "\<And>p. p \<in> set ps \<Longrightarrow> filter Q (f p) = filter P (filter Q (g p))"
  shows "filter Q (concat (map f ps)) = filter P (filter Q (concat (map g ps)))"
  using assms by (induction ps) auto

lemma indices_of_emitted:
  assumes "\<And>i j d. body i j = Inr (Some d) \<Longrightarrow> Record_1_Index d = i \<and> Record_2_Index d = j"
  shows "map (\<lambda>d. (Record_1_Index d, Record_2_Index d))
           (concat (map (\<lambda>p. emitted (body (fst p) (snd p))) ps)) =
         filter (\<lambda>p. \<exists>d. body (fst p) (snd p) = Inr (Some d)) ps"
proof (induction ps)
  case Nil
  then show ?case by simp
next
  case (Cons p ps)
  show ?case
  proof (cases "\<exists>d. body (fst p) (snd p) = Inr (Some d)")
    case True
    then obtain d where d: "body (fst p) (snd p) = Inr (Some d)" by blast
    with assms have "(Record_1_Index d, Record_2_Index d) = p" by (cases p) auto
    then show ?thesis using d Cons.IH by (simp add: emitted_def)
  next
    case False
    then have "emitted (body (fst p) (snd p)) = []"
      by (auto simp: emitted_def split: sum.splits option.splits)
    then show ?thesis using False Cons.IH by simp
  qed
qed

lemma distinct_unordered:
  fixes ps :: "(nat \<times> nat) list"
  assumes "distinct ps" and "\<forall>p \<in> set ps. fst p < snd p"
  shows "distinct (map (\<lambda>p. {fst p, snd p}) ps)"
proof -
  have "inj_on (\<lambda>p. {fst p, snd p}) (set ps)"
  proof (rule inj_onI)
    fix p q :: "nat \<times> nat"
    assume "p \<in> set ps" and "q \<in> set ps" and eq: "{fst p, snd p} = {fst q, snd q}"
    then have "fst p < snd p" and "fst q < snd q" using assms by auto
    with eq have "fst p = fst q \<and> snd p = snd q"
      by (metis doubleton_eq_iff less_irrefl order_less_asym)
    then show "p = q" by (simp add: prod_eq_iff)
  qed
  then show ?thesis using assms by (simp add: distinct_map)
qed

subsection \<open>The comparison of one pair\<close>

text \<open>The comparison in closed form for rows with known cells, and what a flagged pair or a raised error tells about the rows.\<close>

lemma has_columns_row_is: "has_columns r \<longleftrightarrow> (\<exists>vid name dob addr. row_is r vid name dob addr)"
  by (auto simp: has_columns_def required_columns_def row_is_def)

lemma compare_pair_cells:
  assumes "row_is (df ! i) id1 name1 dob1 addr1" and "row_is (df ! j) id2 name2 dob2 addr2"
  shows "compare_pair lib df nt tol chk ath i j =
     Inr (let name_sim = calculate_name_similarity lib name1 name2 in
          if name_sim < of_int nt then None
          else
            let dob_diff = calculate_dob_difference lib dob1 dob2;
                addr_sim = (if chk then calculate_address_similarity lib addr1 addr2 else 0)
            in case classify name_sim dob_diff addr_sim nt tol chk ath of
                 (is_duplicate, confidence, reasons) \<Rightarrow>
                   if is_duplicate then
                     Some \<lparr>Record_1_Index = i, Record_2_Index = j,
                           Voter_ID_1 = id1, Voter_ID_2 = id2,
                           Name_1 = name1, Name_2 = name2,
                           DOB_1 = dob1, DOB_2 = dob2,
                           Address_1 = addr1, Address_2 = addr2,
                           Name_Similarity = name_sim,
                           DOB_Difference_Days = dob_diff,
                           Address_Similarity = addr_sim,
                           Confidence_Score = confidence,
                           Detection_Reasons = join '' | '' reasons\<rparr>
                   else None)"
  using assms
  by (simp add: compare_pair_def row_is_def getitem_def bind_err_def Let_def split: prod.splits)

lemma compare_pair_rows:
  assumes "compare_pair lib df nt tol chk ath i j = Inr (Some d)"
  shows "has_columns (df ! i) \<and> has_columns (df ! j)"
  using assms
  by (auto simp: compare_pair_def getitem_def bind_err_def Let_def has_columns_def required_columns_def
      split: option.splits if_splits prod.splits)

lemma compare_pair_index:
  assumes "compare_pair lib df nt tol chk ath i j = Inr (Some d)"
  shows "Record_1_Index d = i \<and> Record_2_Index d = j"
proof -
  from compare_pair_rows [OF assms] obtain id1 name1 dob1 addr1 id2 name2 dob2 addr2
    where "row_is (df ! i) id1 name1 dob1 addr1" and "row_is (df ! j) id2 name2 dob2 addr2"
    by (auto simp: has_columns_row_is)
  from compare_pair_cells [OF this, of lib nt tol chk ath] assms show ?thesis
    by (auto simp: Let_def split: if_splits prod.splits)
qed

lemma compare_pair_total:
  assumes "has_columns (df ! i)" and "has_columns (df ! j)"
  shows "\<exists>r. compare_pair lib df nt tol chk ath i j = Inr r"
proof -
  from assms obtain id1 name1 dob1 addr1 id2 name2 dob2 addr2
    where "row_is (df ! i) id1 name1 dob1 addr1" and "row_is (df ! j) id2 name2 dob2 addr2"
    by (auto simp: has_columns_row_is)
  from compare_pair_cells [OF this, of lib nt tol chk ath] show ?thesis by blast
qed

lemma compare_pair_SomeE:
  assumes "compare_pair lib df nt tol chk ath i j = Inr (Some d)"
  obtains id1 name1 dob1 addr1 id2 name2 dob2 addr2 reasons where
    "row_is (df ! i) id1 name1 dob1 addr1" and "row_is (df ! j) id2 name2 dob2 addr2"
    and "of_int nt \<le> calculate_name_similarity lib name1 name2"
    and "classify (Name_Similarity d) (DOB_Difference_Days d) (Address_Similarity d) nt tol chk ath
           = (True, Confidence_Score d, reasons)"
    and "d = \<lparr>Record_1_Index = i, Record_2_Index = j,
               Voter_ID_1 = id1, Voter_ID_2 = id2, Name_1 = name1, Name_2 = name2,
               DOB_1 = dob1, DOB_2 = dob2, Address_1 = addr1, Address_2 = addr2,
               Name_Similarity = calculate_name_similarity lib name1 name2,
               DOB_Difference_Days = calculate_dob_difference lib dob1 dob2,
               Address_Similarity = (if chk then calculate_address_similarity lib addr1 addr2 else 0),
               Confidence_Score = Confidence_Score d,
               Detection_Reasons = join '' | '' reasons\<rparr>"
proof -
  from compare_pair_rows [OF assms] obtain id1 name1 dob1 addr1 id2 name2 dob2 addr2
    where rows: "row_is (df ! i) id1 name1 dob1 addr1" "row_is (df ! j) id2 name2 dob2 addr2"
    by (auto simp: has_columns_row_is)
  let ?ns = "calculate_name_similarity lib name1 name2"
  let ?dd = "calculate_dob_difference lib dob1 dob2"
  let ?as = "if chk then calculate_address_similarity lib addr1 addr2 else 0"
  obtain dup conf reasons where cl: "classify ?ns ?dd ?as nt tol chk ath = (dup, conf, reasons)"
    by (cases "classify ?ns ?dd ?as nt tol chk ath") auto
  from compare_pair_cells [OF rows, of lib nt tol chk ath] assms cl
  have gate: "of_int nt \<le> ?ns" and dup: "dup"
    and d: "d = \<lparr>Record_1_Index = i, Record_2_Index = j,
               Voter_ID_1 = id1, Voter_ID_2 = id2, Name_1 = name1, Name_2 = name2,
               DOB_1 = dob1, DOB_2 = dob2, Address_1 = addr1, Address_2 = addr2,
               Name_Similarity = ?ns, DOB_Difference_Days = ?dd, Address_Similarity = ?as,
               Confidence_Score = conf, Detection_Reasons = join '' | '' reasons\<rparr>"
    by (auto simp: Let_def split: if_splits)
  show ?thesis
    by (rule that [OF rows gate, of reasons]) (use cl dup d in auto)
qed

lemma classify_True_cases:
  assumes "classify ns dd asim nt tol chk ath = (True, conf, reasons)"
  shows "(95 \<le> ns \<and> conf = ns \<and> reasons = [''High name similarity ('' @ fmt_1f ns @ ''%)''])
       \<or> (ns < 95 \<and> of_int nt \<le> ns \<and> dd \<le> tol
           \<and> conf = (ns + (100 - of_int dd / 365 * 100)) / 2
           \<and> reasons = [''Name similarity ('' @ fmt_1f ns @ ''%)'',
                        ''DOB difference ('' @ show_int dd @ '' days)''])
       \<or> (ns < 95 \<and> of_int nt \<le> ns \<and> \<not> dd \<le> tol \<and> chk \<and> ath \<le> asim
           \<and> conf = (ns + of_int asim) / 2
           \<and> reasons = [''Name similarity ('' @ fmt_1f ns @ ''%)'',
                        ''Address similarity ('' @ fmt_1f (of_int asim) @ ''%)''])"
  using assms by (auto simp: classify_def split: if_splits)

lemma calculate_dob_difference_nonneg: "0 \<le> calculate_dob_difference lib dob1 dob2"
  by (simp add: calculate_dob_difference_def split: option.splits)

lemma metrics_of_missing:
  "calculate_name_similarity lib NaN c = 0" "calculate_name_similarity lib c NaN = 0"
  "calculate_address_similarity lib NaN c = 0" "calculate_address_similarity lib c NaN = 0"
  "calculate_dob_difference lib NaN c = 999999" "calculate_dob_difference lib c NaN = 999999"
  by (simp_all add: calculate_name_similarity_def calculate_address_similarity_def
      calculate_dob_difference_def isna_def)

lemma days_swap:
  "\<bar>days (- x)\<bar> = \<bar>days x\<bar> \<longleftrightarrow> ns_per_day dvd x"
proof (cases "ns_per_day dvd x")
  case True
  then have "(- x) div ns_per_day = - (x div ns_per_day)" by (rule dvd_neg_div)
  then show ?thesis using True by (simp add: days_def)
next
  case False
  then have "x mod ns_per_day \<noteq> 0" by (simp add: mod_eq_0_iff_dvd)
  then have "(- x) div ns_per_day = - (x div ns_per_day) - 1"
    by (simp add: zdiv_zminus1_eq_if ns_per_day_def)
  then have "days (- x) = - days x - 1" by (simp add: days_def)
  then have "\<bar>days (- x)\<bar> \<noteq> \<bar>days x\<bar>" by linarith
  then show ?thesis using False by simp
qed

lemma timedelta_swap:
  "timedelta date1 date2 = Some x \<Longrightarrow> timedelta date2 date1 = Some (- x)"
  by (auto simp: timedelta_def split: timestamp.splits)

lemma tier2_of_fields:
  assumes "compare_pair lib df nt tol chk ath i j = Inr (Some d)"
    and "Name_Similarity d < 95" and "DOB_Difference_Days d \<le> tol"
  shows "Confidence_Score d =
           (Name_Similarity d + (100 - of_int (DOB_Difference_Days d) / 365 * 100)) / 2
       \<and> Detection_Reasons d =
           ''Name similarity ('' @ fmt_1f (Name_Similarity d) @ ''%)'' @ '' | ''
           @ ''DOB difference ('' @ show_int (DOB_Difference_Days d) @ '' days)''
       \<and> of_int nt \<le> Name_Similarity d \<and> 0 \<le> DOB_Difference_Days d"
proof -
  from assms(1) obtain id1 name1 dob1 addr1 id2 name2 dob2 addr2 reasons where
    gate: "of_int nt \<le> calculate_name_similarity lib name1 name2"
    and cl: "classify (Name_Similarity d) (DOB_Difference_Days d) (Address_Similarity d) nt tol chk ath
           = (True, Confidence_Score d, reasons)"
    and d: "d = \<lparr>Record_1_Index = i, Record_2_Index = j,
               Voter_ID_1 = id1, Voter_ID_2 = id2, Name_1 = name1, Name_2 = name2,
               DOB_1 = dob1, DOB_2 = dob2, Address_1 = addr1, Address_2 = addr2,
               Name_Similarity = calculate_name_similarity lib name1 name2,
               DOB_Difference_Days = calculate_dob_difference lib dob1 dob2,
               Address_Similarity = (if chk then calculate_address_similarity lib addr1 addr2 else 0),
               Confidence_Score = Confidence_Score d,
               Detection_Reasons = join '' | '' reasons\<rparr>"
    by (rule compare_pair_SomeE)
  have ns: "Name_Similarity d = calculate_name_similarity lib name1 name2"
    and dd: "DOB_Difference_Days d = calculate_dob_difference lib dob1 dob2"
    and rs: "Detection_Reasons d = join '' | '' reasons"
    by (subst d, simp)+
  have g: "of_int nt \<le> Name_Similarity d" using gate ns by simp
  have nn: "0 \<le> DOB_Difference_Days d" using dd calculate_dob_difference_nonneg by simp
  from cl assms(2,3) g
  have "Confidence_Score d =
           (Name_Similarity d + (100 - of_int (DOB_Difference_Days d) / 365 * 100)) / 2"
    and "reasons = [''Name similarity ('' @ fmt_1f (Name_Similarity d) @ ''%)'',
                    ''DOB difference ('' @ show_int (DOB_Difference_Days d) @ '' days)'']"
    by (auto simp: classify_def split: if_splits)
  then show ?thesis using rs g nn by simp
qed

lemma confidence_nonneg:
  assumes "compare_pair lib df nt tol chk ath i j = Inr (Some d)"
    and "0 \<le> nt" and "tol \<le> 365" and "0 \<le> ath"
  shows "0 \<le> Confidence_Score d"
proof -
  from assms(1) obtain id1 name1 dob1 addr1 id2 name2 dob2 addr2 reasons where
    gate: "of_int nt \<le> calculate_name_similarity lib name1 name2"
    and cl: "classify (Name_Similarity d) (DOB_Difference_Days d) (Address_Similarity d) nt tol chk ath
           = (True, Confidence_Score d, reasons)"
    and d: "d = \<lparr>Record_1_Index = i, Record_2_Index = j,
               Voter_ID_1 = id1, Voter_ID_2 = id2, Name_1 = name1, Name_2 = name2,
               DOB_1 = dob1, DOB_2 = dob2, Address_1 = addr1, Address_2 = addr2,
               Name_Similarity = calculate_name_similarity lib name1 name2,
               DOB_Difference_Days = calculate_dob_difference lib dob1 dob2,
               Address_Similarity = (if chk then calculate_address_similarity lib addr1 addr2 else 0),
               Confidence_Score = Confidence_Score d,
               Detection_Reasons = join '' | '' reasons\<rparr>"
    by (rule compare_pair_SomeE)
  have ns: "Name_Similarity d = calculate_name_similarity lib name1 name2"
    by (subst d, simp)
  have g: "0 \<le> Name_Similarity d"
  proof -
    have "(0::rat) \<le> of_int nt" using assms(2) by simp
    then show ?thesis using gate ns by simp
  qed
  consider (t1) "95 \<le> Name_Similarity d"
    | (t2) "Name_Similarity d < 95" "DOB_Difference_Days d \<le> tol"
    | (t3) "Name_Similarity d < 95" "\<not> DOB_Difference_Days d \<le> tol"
    by linarith
  then show ?thesis
  proof cases
    case t1
    with cl show ?thesis by (simp add: classify_def)
  next
    case t2
    from tier2_of_fields [OF assms(1) t2]
    have c: "Confidence_Score d =
           (Name_Similarity d + (100 - of_int (DOB_Difference_Days d) / 365 * 100)) / 2" by simp
    have "DOB_Difference_Days d \<le> 365" using t2 assms(3) by simp
    then have "(of_int (DOB_Difference_Days d) :: rat) \<le> 365" by linarith
    then have "(of_int (DOB_Difference_Days d) :: rat) / 365 * 100 \<le> 100" by simp
    then show ?thesis using c g by simp
  next
    case t3
    with cl have c: "Confidence_Score d = (Name_Similarity d + of_int (Address_Similarity d)) / 2"
      and a: "ath \<le> Address_Similarity d"
      by (auto simp: classify_def split: if_splits)
    have "(0::rat) \<le> of_int (Address_Similarity d)" using a assms(4) by simp
    then show ?thesis using c g by simp
  qed
qed

lemma flagged_with_missing:
  assumes c: "compare_pair lib df nt tol chk ath i j = Inr (Some d)"
    and k: "k = i \<or> k = j"
    and r: "settings_in_range nt tol ath"
  shows "(df ! k) ''Full_Name'' \<noteq> Some NaN
     \<and> ((df ! k) ''Date_of_Birth'' = Some NaN \<longrightarrow>
          DOB_Difference_Days d = 999999
          \<and> (95 \<le> Name_Similarity d \<or> (chk \<and> ath \<le> Address_Similarity d)))
     \<and> ((df ! k) ''Address'' = Some NaN \<longrightarrow>
          Address_Similarity d = 0
          \<and> (95 \<le> Name_Similarity d \<or> DOB_Difference_Days d \<le> tol))"
proof -
  from c obtain id1 name1 dob1 addr1 id2 name2 dob2 addr2 reasons where
    r1: "row_is (df ! i) id1 name1 dob1 addr1" and r2: "row_is (df ! j) id2 name2 dob2 addr2"
    and gate: "of_int nt \<le> calculate_name_similarity lib name1 name2"
    and cl: "classify (Name_Similarity d) (DOB_Difference_Days d) (Address_Similarity d) nt tol chk ath
           = (True, Confidence_Score d, reasons)"
    and d: "d = \<lparr>Record_1_Index = i, Record_2_Index = j,
               Voter_ID_1 = id1, Voter_ID_2 = id2, Name_1 = name1, Name_2 = name2,
               DOB_1 = dob1, DOB_2 = dob2, Address_1 = addr1, Address_2 = addr2,
               Name_Similarity = calculate_name_similarity lib name1 name2,
               DOB_Difference_Days = calculate_dob_difference lib dob1 dob2,
               Address_Similarity = (if chk then calculate_address_similarity lib addr1 addr2 else 0),
               Confidence_Score = Confidence_Score d,
               Detection_Reasons = join '' | '' reasons\<rparr>"
    by (rule compare_pair_SomeE)
  have dd: "DOB_Difference_Days d = calculate_dob_difference lib dob1 dob2"
    and asim: "Address_Similarity d = (if chk then calculate_address_similarity lib addr1 addr2 else 0)"
    by (subst d, simp)+
  from r have nt: "(0::rat) < of_int nt" and tol: "tol < 999999" and ath: "0 < ath"
    by (simp_all add: settings_in_range_def)
  have name: "(df ! k) ''Full_Name'' \<noteq> Some NaN"
  proof
    assume "(df ! k) ''Full_Name'' = Some NaN"
    with k r1 r2 have "name1 = NaN \<or> name2 = NaN" by (auto simp: row_is_def)
    then have "calculate_name_similarity lib name1 name2 = 0"
      by (auto simp: metrics_of_missing)
    with gate nt show False by simp
  qed
  have dob: "DOB_Difference_Days d = 999999
          \<and> (95 \<le> Name_Similarity d \<or> (chk \<and> ath \<le> Address_Similarity d))"
    if "(df ! k) ''Date_of_Birth'' = Some NaN"
  proof -
    from that k r1 r2 have "dob1 = NaN \<or> dob2 = NaN" by (auto simp: row_is_def)
    then have v: "DOB_Difference_Days d = 999999" using dd by (auto simp: metrics_of_missing)
    with tol have "\<not> DOB_Difference_Days d \<le> tol" by simp
    with classify_True_cases [OF cl] v show ?thesis by auto
  qed
  have addr: "Address_Similarity d = 0
          \<and> (95 \<le> Name_Similarity d \<or> DOB_Difference_Days d \<le> tol)"
    if "(df ! k) ''Address'' = Some NaN"
  proof -
    from that k r1 r2 have "addr1 = NaN \<or> addr2 = NaN" by (auto simp: row_is_def)
    then have v: "Address_Similarity d = 0" using asim by (auto simp: metrics_of_missing)
    with ath have "\<not> ath \<le> Address_Similarity d" by simp
    with classify_True_cases [OF cl] v show ?thesis by auto
  qed
  from name dob addr show ?thesis by blast
qed

lemma compare_pair_address_disabled:
  assumes c: "compare_pair lib df nt tol False ath i j = Inr (Some d)"
  shows "Address_Similarity d = 0
     \<and> ((Confidence_Score d = Name_Similarity d
          \<and> Detection_Reasons d = ''High name similarity ('' @ fmt_1f (Name_Similarity d) @ ''%)'')
        \<or> (Confidence_Score d =
              (Name_Similarity d + (100 - of_int (DOB_Difference_Days d) / 365 * 100)) / 2
            \<and> Detection_Reasons d =
                ''Name similarity ('' @ fmt_1f (Name_Similarity d) @ ''%)'' @ '' | ''
                @ ''DOB difference ('' @ show_int (DOB_Difference_Days d) @ '' days)''))"
proof -
  from c obtain id1 name1 dob1 addr1 id2 name2 dob2 addr2 reasons where
    cl: "classify (Name_Similarity d) (DOB_Difference_Days d) (Address_Similarity d) nt tol False ath
           = (True, Confidence_Score d, reasons)"
    and d: "d = \<lparr>Record_1_Index = i, Record_2_Index = j,
               Voter_ID_1 = id1, Voter_ID_2 = id2, Name_1 = name1, Name_2 = name2,
               DOB_1 = dob1, DOB_2 = dob2, Address_1 = addr1, Address_2 = addr2,
               Name_Similarity = calculate_name_similarity lib name1 name2,
               DOB_Difference_Days = calculate_dob_difference lib dob1 dob2,
               Address_Similarity = (if False then calculate_address_similarity lib addr1 addr2 else 0),
               Confidence_Score = Confidence_Score d,
               Detection_Reasons = join '' | '' reasons\<rparr>"
    by (rule compare_pair_SomeE)
  have a: "Address_Similarity d = 0" and rs: "Detection_Reasons d = join '' | '' reasons"
    by (subst d, simp)+
  from classify_True_cases [OF cl] a rs show ?thesis by auto
qed

lemma compare_pair_other_addresses:
  assumes c: "compare_pair lib df nt tol False ath i j = Inr (Some d)"
    and same: "\<forall>c. c \<noteq> ''Address'' \<longrightarrow> (df' ! i) c = (df ! i) c \<and> (df' ! j) c = (df ! j) c"
    and a1: "(df' ! i) ''Address'' = Some a1" and a2: "(df' ! j) ''Address'' = Some a2"
  shows "compare_pair lib df' nt tol False ath i j = Inr (Some (d\<lparr>Address_1 := a1, Address_2 := a2\<rparr>))"
proof -
  from compare_pair_rows [OF c] obtain id1 name1 dob1 addr1 id2 name2 dob2 addr2
    where r1: "row_is (df ! i) id1 name1 dob1 addr1" and r2: "row_is (df ! j) id2 name2 dob2 addr2"
    by (auto simp: has_columns_row_is)
  from r1 r2 same a1 a2
  have r1': "row_is (df' ! i) id1 name1 dob1 a1" and r2': "row_is (df' ! j) id2 name2 dob2 a2"
    by (simp_all add: row_is_def)
  from compare_pair_cells [OF r1 r2, of lib nt tol False ath] c
    compare_pair_cells [OF r1' r2', of lib nt tol False ath]
  show ?thesis
    by (auto simp: Let_def split: if_splits prod.splits)
qed

lemma flagged_by_tier3_iff:
  assumes c: "compare_pair lib df nt tol chk ath i j = Inr (Some d)"
  shows "flagged_by_tier3 d \<longleftrightarrow> Name_Similarity d < 95 \<and> tol < DOB_Difference_Days d"
proof -
  from c obtain id1 name1 dob1 addr1 id2 name2 dob2 addr2 reasons where
    cl: "classify (Name_Similarity d) (DOB_Difference_Days d) (Address_Similarity d) nt tol chk ath
           = (True, Confidence_Score d, reasons)"
    and d: "d = \<lparr>Record_1_Index = i, Record_2_Index = j,
               Voter_ID_1 = id1, Voter_ID_2 = id2, Name_1 = name1, Name_2 = name2,
               DOB_1 = dob1, DOB_2 = dob2, Address_1 = addr1, Address_2 = addr2,
               Name_Similarity = calculate_name_similarity lib name1 name2,
               DOB_Difference_Days = calculate_dob_difference lib dob1 dob2,
               Address_Similarity = (if chk then calculate_address_similarity lib addr1 addr2 else 0),
               Confidence_Score = Confidence_Score d,
               Detection_Reasons = join '' | '' reasons\<rparr>"
    by (rule compare_pair_SomeE)
  have rs: "Detection_Reasons d = join '' | '' reasons" by (subst d, simp)
  from classify_True_cases [OF cl] show ?thesis
    unfolding flagged_by_tier3_def rs by auto
qed

lemma compare_pair_raise_name_threshold:
  assumes r1: "row_is (df ! i) id1 name1 dob1 addr1" and r2: "row_is (df ! j) id2 name2 dob2 addr2"
    and le: "nt \<le> nt'"
  shows "emitted (compare_pair lib df nt' tol chk ath i j) =
         filter (\<lambda>d. of_int nt' \<le> Name_Similarity d) (emitted (compare_pair lib df nt tol chk ath i j))"
proof -
  let ?ns = "calculate_name_similarity lib name1 name2"
  let ?dd = "calculate_dob_difference lib dob1 dob2"
  let ?as = "if chk then calculate_address_similarity lib addr1 addr2 else 0"
  have le': "(of_int nt :: rat) \<le> of_int nt'" using le by simp
  show ?thesis
  proof (cases "of_int nt' \<le> ?ns")
    case True
    then have g: "of_int nt \<le> ?ns" using le' by simp
    have "classify ?ns ?dd ?as nt' tol chk ath = classify ?ns ?dd ?as nt tol chk ath"
      using True g by (simp add: classify_def)
    then show ?thesis
      using True g compare_pair_cells [OF r1 r2, of lib nt tol chk ath]
        compare_pair_cells [OF r1 r2, of lib nt' tol chk ath]
      by (auto simp: Let_def emitted_def split: prod.splits)
  next
    case False
    then have l: "emitted (compare_pair lib df nt' tol chk ath i j) = []"
      using compare_pair_cells [OF r1 r2, of lib nt' tol chk ath]
      by (simp add: Let_def emitted_def)
    have "\<forall>d \<in> set (emitted (compare_pair lib df nt tol chk ath i j)). Name_Similarity d = ?ns"
      using compare_pair_cells [OF r1 r2, of lib nt tol chk ath]
      by (auto simp: Let_def emitted_def split: prod.splits if_splits)
    then have "filter (\<lambda>d. of_int nt' \<le> Name_Similarity d)
                 (emitted (compare_pair lib df nt tol chk ath i j)) = []"
      using False by (auto simp: filter_empty_conv)
    with l show ?thesis by simp
  qed
qed

lemma compare_pair_lower_addr_threshold:
  assumes r1: "row_is (df ! i) id1 name1 dob1 addr1" and r2: "row_is (df ! j) id2 name2 dob2 addr2"
    and le: "ath' \<le> ath"
  shows "filter flagged_by_tier3 (emitted (compare_pair lib df nt tol chk ath i j)) =
         filter (\<lambda>d. ath \<le> Address_Similarity d)
           (filter flagged_by_tier3 (emitted (compare_pair lib df nt tol chk ath' i j)))"
proof -
  let ?ns = "calculate_name_similarity lib name1 name2"
  let ?dd = "calculate_dob_difference lib dob1 dob2"
  let ?as = "if chk then calculate_address_similarity lib addr1 addr2 else 0"
  let ?L = "compare_pair lib df nt tol chk ath i j"
  let ?R = "compare_pair lib df nt tol chk ath' i j"
  have fields: "Name_Similarity d = ?ns \<and> DOB_Difference_Days d = ?dd \<and> Address_Similarity d = ?as"
    if "compare_pair lib df nt tol chk a i j = Inr (Some d)" for d a
    using that compare_pair_cells [OF r1 r2, of lib nt tol chk a]
    by (auto simp: Let_def split: prod.splits if_splits)
  have t3: "flagged_by_tier3 d \<longleftrightarrow> ?ns < 95 \<and> tol < ?dd"
    if "compare_pair lib df nt tol chk a i j = Inr (Some d)" for d a
    using flagged_by_tier3_iff [OF that] fields [OF that] by simp
  show ?thesis
  proof (cases "?ns < 95 \<and> tol < ?dd")
    case False
    then have "filter flagged_by_tier3 (emitted ?L) = []"
      and "filter flagged_by_tier3 (emitted ?R) = []"
      using t3 by (auto simp: filter_empty_conv in_emitted)
    then show ?thesis by simp
  next
    case True
    show ?thesis
    proof (cases "of_int nt \<le> ?ns \<and> chk \<and> ath \<le> ?as")
      case yes: True
      then have "classify ?ns ?dd ?as nt tol chk ath' = classify ?ns ?dd ?as nt tol chk ath"
        using True le by (auto simp: classify_def)
      then have same: "?R = ?L"
        unfolding compare_pair_cells [OF r1 r2, of lib nt tol chk ath]
          compare_pair_cells [OF r1 r2, of lib nt tol chk ath'] Let_def
        by simp
      have "\<forall>d \<in> set (emitted ?L). ath \<le> Address_Similarity d"
        using fields yes by (auto simp: in_emitted)
      then have "filter (\<lambda>d. ath \<le> Address_Similarity d) (filter flagged_by_tier3 (emitted ?L))
                 = filter flagged_by_tier3 (emitted ?L)"
        by (auto intro!: filter_cong)
      then show ?thesis using same by simp
    next
      case no: False
      have "classify ?ns ?dd ?as nt tol chk ath = (False, 0, [])"
        using True no by (auto simp: classify_def)
      then have l: "emitted ?L = []"
        using compare_pair_cells [OF r1 r2, of lib nt tol chk ath]
        by (simp add: Let_def emitted_def)
      have "\<forall>d \<in> set (emitted ?R). \<not> ath \<le> Address_Similarity d"
      proof
        fix d assume "d \<in> set (emitted ?R)"
        then have c: "?R = Inr (Some d)" by (simp add: in_emitted)
        from compare_pair_SomeE [OF c] obtain reasons where
          "classify (Name_Similarity d) (DOB_Difference_Days d) (Address_Similarity d) nt tol chk ath'
             = (True, Confidence_Score d, reasons)"
          by metis
        with fields [OF c] have cl: "classify ?ns ?dd ?as nt tol chk ath' = (True, Confidence_Score d, reasons)"
          by simp
        from classify_True_cases [OF cl] True have "of_int nt \<le> ?ns \<and> chk" by auto
        with no have "\<not> ath \<le> ?as" by simp
        with fields [OF c] show "\<not> ath \<le> Address_Similarity d" by simp
      qed
      then have "filter (\<lambda>d. ath \<le> Address_Similarity d) (filter flagged_by_tier3 (emitted ?R)) = []"
        by (auto simp: filter_empty_conv)
      with l show ?thesis by simp
    qed
  qed
qed

lemma compare_pair_Inl:
  assumes "compare_pair lib df nt tol chk ath i j = Inl e"
  shows "\<exists>c k. e = KeyError c \<and> c \<in> set required_columns \<and> (k = i \<or> k = j) \<and> (df ! k) c = None"
proof (cases "has_columns (df ! i) \<and> has_columns (df ! j)")
  case True
  with compare_pair_total [of df i j lib nt tol chk ath] assms show ?thesis by auto
next
  case False
  have "\<exists>c. e = KeyError c \<and> c \<in> set required_columns \<and> ((df ! i) c = None \<or> (df ! j) c = None)"
    using assms
    by (auto simp: compare_pair_def getitem_def bind_err_def Let_def required_columns_def
        split: option.splits if_splits prod.splits)
  then show ?thesis by blast
qed

lemma compare_pair_no_name:
  assumes "(df ! i) ''Full_Name'' = None"
  shows "compare_pair lib df nt tol chk ath i j = Inl (KeyError ''Full_Name'')"
  using assms by (simp add: compare_pair_def getitem_def bind_err_def)

lemma compare_pair_below_gate:
  assumes "(df ! i) ''Full_Name'' = Some n1" and "(df ! j) ''Full_Name'' = Some n2"
    and "calculate_name_similarity lib n1 n2 < of_int nt"
  shows "compare_pair lib df nt tol chk ath i j = Inr None"
  using assms by (simp add: compare_pair_def getitem_def bind_err_def)

subsection \<open>The result of the scan\<close>

text \<open>The rows of the result are the rows the comparisons of the pairs return.\<close>

lemma well_formed_nth: "well_formed df \<Longrightarrow> i < length df \<Longrightarrow> has_columns (df ! i)"
  by (simp add: well_formed_def list_all_length)

lemma detect_duplicates_well_formed:
  assumes "well_formed df"
  shows "detect_duplicates lib df nt tol chk ath =
     Inr (concat (map (\<lambda>p. emitted (compare_pair lib df nt tol chk ath (fst p) (snd p)))
            (pairs_of (length df))))"
proof -
  have "\<forall>p \<in> set (pairs_of (length df)).
          \<exists>r. compare_pair lib df nt tol chk ath (fst p) (snd p) = Inr r"
    using assms by (auto simp: set_pairs_of intro!: compare_pair_total well_formed_nth)
  then show ?thesis
    by (simp add: detect_duplicates_run run_pairs_Inr_iff)
qed

lemma detect_duplicates_set:
  assumes "detect_duplicates lib df nt tol chk ath = Inr ds"
  shows "d \<in> set ds \<longleftrightarrow>
     (\<exists>i j. i < j \<and> j < length df \<and> compare_pair lib df nt tol chk ath i j = Inr (Some d))"
proof -
  from assms have "ds = concat (map (\<lambda>p. emitted (compare_pair lib df nt tol chk ath (fst p) (snd p)))
            (pairs_of (length df)))"
    by (simp add: detect_duplicates_run run_pairs_Inr_iff)
  then show ?thesis
    by (auto simp: in_emitted set_pairs_of)
qed

lemma detect_duplicates_indices:
  assumes "detect_duplicates lib df nt tol chk ath = Inr ds"
  shows "map (\<lambda>d. (Record_1_Index d, Record_2_Index d)) ds =
         filter (\<lambda>p. \<exists>d. compare_pair lib df nt tol chk ath (fst p) (snd p) = Inr (Some d))
           (pairs_of (length df))"
proof -
  from assms have "ds = concat (map (\<lambda>p. emitted (compare_pair lib df nt tol chk ath (fst p) (snd p)))
            (pairs_of (length df)))"
    by (simp add: detect_duplicates_run run_pairs_Inr_iff)
  then show ?thesis
    using indices_of_emitted [of "compare_pair lib df nt tol chk ath"] compare_pair_index
    by blast
qed

lemma detect_duplicates_emits:
  assumes "well_formed df" and "i < j" and "j < length df"
    and "compare_pair lib df nt tol chk ath i j = Inr (Some d)"
  shows "\<exists>ds. detect_duplicates lib df nt tol chk ath = Inr ds \<and> d \<in> set ds"
proof -
  from detect_duplicates_well_formed [OF assms(1), of lib nt tol chk ath]
  obtain ds where ds: "detect_duplicates lib df nt tol chk ath = Inr ds" by blast
  with detect_duplicates_set [OF ds, of d] assms show ?thesis by blast
qed

subsection \<open>The samples, evaluated\<close>

text \<open>The metrics, the comparison and the scan on the sample tables.\<close>

lemma near_table_rows:
  "row_is (near_table ! 0) (Str ''V1'') (Str ''RAVI KUMAR'') (Str ''1970-01-01'') (Str ''PUNE'')"
  "row_is (near_table ! 1) (Str ''V2'') (Str ''RAVI KUMARR'') (Str ''1972-01-01'') (Str ''GOA'')"
  "well_formed near_table" "length near_table = 2"
  by code_simp+

lemma typo_table_rows:
  "row_is (typo_table ! 0) (Str ''V1'') (Str ''RAVI KUMAR'') (Str ''1970-01-01'') (Str ''PUNE'')"
  "row_is (typo_table ! 1) (Str ''V2'') (Str ''RAVI KUAMR'') (Str ''1970-01-02'') (Str ''GOA'')"
  "well_formed typo_table" "length typo_table = 2"
  by code_simp+

lemma sample_similarities:
  "calculate_name_similarity sample_lib (Str ''RAVI KUMAR'') (Str ''RAVI KUMARR'') = 96"
  "calculate_name_similarity sample_lib (Str ''RAVI KUMAR'') (Str ''RAVI KUAMR'') = 90"
  "calculate_dob_difference sample_lib (Str ''1970-01-01'') (Str ''1970-01-02'') = 1"
  by code_simp+

lemma sample_formats:
  "fmt_1f 96 = ''96.0''" "fmt_1f 90 = ''90.0''" "show_int 1 = ''1''"
  by code_simp+

lemma typo_pair_result:
  "compare_pair sample_lib typo_table 85 30 True 70 0 1 =
     Inr (Some \<lparr>Record_1_Index = 0, Record_2_Index = 1,
                 Voter_ID_1 = Str ''V1'', Voter_ID_2 = Str ''V2'',
                 Name_1 = Str ''RAVI KUMAR'', Name_2 = Str ''RAVI KUAMR'',
                 DOB_1 = Str ''1970-01-01'', DOB_2 = Str ''1970-01-02'',
                 Address_1 = Str ''PUNE'', Address_2 = Str ''GOA'',
                 Name_Similarity = 90, DOB_Difference_Days = 1, Address_Similarity = 0,
                 Confidence_Score = 6925 / 73,
                 Detection_Reasons = ''Name similarity (90.0%) | DOB difference (1 days)''\<rparr>)"
  by code_simp

lemma missing_pair_result:
  "detect_duplicates sample_lib missing_table 85 30 True 70 =
     Inr [\<lparr>Record_1_Index = 0, Record_2_Index = 1,
           Voter_ID_1 = Str ''V1'', Voter_ID_2 = Str ''V2'',
           Name_1 = Str ''RAVI KUMAR'', Name_2 = Str ''RAVI KUMAR'',
           DOB_1 = NaN, DOB_2 = Str ''1970-01-01'',
           Address_1 = NaN, Address_2 = Str ''PUNE'',
           Name_Similarity = 100, DOB_Difference_Days = 999999, Address_Similarity = 0,
           Confidence_Score = 100,
           Detection_Reasons = ''High name similarity (100.0%)''\<rparr>]"
  by code_simp

lemma readdressed_same:
  "\<forall>c. c \<noteq> ''Address'' \<longrightarrow>
        (readdressed_table ! 0) c = (missing_table ! 0) c
        \<and> (readdressed_table ! 1) c = (missing_table ! 1) c"
  by (simp add: readdressed_table_def missing_table_def voter_def)

lemma disabled_pair_result:
  "compare_pair sample_lib missing_table 85 30 False 70 0 1 =
     Inr (Some \<lparr>Record_1_Index = 0, Record_2_Index = 1,
           Voter_ID_1 = Str ''V1'', Voter_ID_2 = Str ''V2'',
           Name_1 = Str ''RAVI KUMAR'', Name_2 = Str ''RAVI KUMAR'',
           DOB_1 = NaN, DOB_2 = Str ''1970-01-01'',
           Address_1 = NaN, Address_2 = Str ''PUNE'',
           Name_Similarity = 100, DOB_Difference_Days = 999999, Address_Similarity = 0,
           Confidence_Score = 100,
           Detection_Reasons = ''High name similarity (100.0%)''\<rparr>)"
  by code_simp

lemma disabled_scan_result:
  "detect_duplicates sample_lib missing_table 85 30 False 70 =
     Inr [\<lparr>Record_1_Index = 0, Record_2_Index = 1,
           Voter_ID_1 = Str ''V1'', Voter_ID_2 = Str ''V2'',
           Name_1 = Str ''RAVI KUMAR'', Name_2 = Str ''RAVI KUMAR'',
           DOB_1 = NaN, DOB_2 = Str ''1970-01-01'',
           Address_1 = NaN, Address_2 = Str ''PUNE'',
           Name_Similarity = 100, DOB_Difference_Days = 999999, Address_Similarity = 0,
           Confidence_Score = 100,
           Detection_Reasons = ''High name similarity (100.0%)''\<rparr>]"
  by code_simp

lemma tier3_scan_results:
  "detect_duplicates sample_lib tier3_table 85 30 True 70 =
     Inr [\<lparr>Record_1_Index = 0, Record_2_Index = 1,
           Voter_ID_1 = Str ''V1'', Voter_ID_2 = Str ''V2'',
           Name_1 = Str ''RAVI KUMAR'', Name_2 = Str ''RAVI KUAMR'',
           DOB_1 = Str ''1970-01-01'', DOB_2 = Str ''1972-01-01'',
           Address_1 = Str ''PUNE'', Address_2 = Str ''PUNE'',
           Name_Similarity = 90, DOB_Difference_Days = 730, Address_Similarity = 100,
           Confidence_Score = 95,
           Detection_Reasons = ''Name similarity (90.0%) | Address similarity (100.0%)''\<rparr>]"
  "detect_duplicates sample_lib tier3_table 92 30 True 70 = Inr []"
  "detect_duplicates sample_lib tier3_table 85 30 True 50 =
     detect_duplicates sample_lib tier3_table 85 30 True 70"
  "well_formed tier3_table"
  by code_simp+

lemma tier3_pair_flagged:
  "flagged_by_tier3 \<lparr>Record_1_Index = 0, Record_2_Index = 1,
           Voter_ID_1 = Str ''V1'', Voter_ID_2 = Str ''V2'',
           Name_1 = Str ''RAVI KUMAR'', Name_2 = Str ''RAVI KUAMR'',
           DOB_1 = Str ''1970-01-01'', DOB_2 = Str ''1972-01-01'',
           Address_1 = Str ''PUNE'', Address_2 = Str ''PUNE'',
           Name_Similarity = 90, DOB_Difference_Days = 730, Address_Similarity = 100,
           Confidence_Score = 95,
           Detection_Reasons = ''Name similarity (90.0%) | Address similarity (100.0%)''\<rparr>"
  by code_simp

lemma no_dob_pair_facts:
  "length no_dob_pair = 2"
  "(no_dob_pair ! 0) ''Full_Name'' = Some (Str ''RAVI KUMAR'')"
  "(no_dob_pair ! 1) ''Full_Name'' = Some (Str ''JOHN'')"
  "calculate_name_similarity sample_lib (Str ''RAVI KUMAR'') (Str ''JOHN'') < of_int 85"
  "length no_name_pair = 2" "lacks_column no_name_pair ''Full_Name''"
  "detect_duplicates sample_lib no_dob_three 85 30 True 70 = Inl (KeyError ''Date_of_Birth'')"
  by code_simp+

section \<open>The claims\<close>

subsection \<open>C1: the first tier and the name threshold\<close>

text \<open>
  C1, as the specification states it, fails: a name similarity of at least 95 does not
  pass a pair whose similarity is below the configured threshold. The names
  \<^verbatim>\<open>RAVI KUMAR\<close> and \<^verbatim>\<open>RAVI KUMARR\<close> have similarity 96; with the threshold at 97 the test
  \<^verbatim>\<open>name_sim < name_threshold\<close> (line 132) skips the pair before the tiers are looked at,
  and the scan returns no row.
\<close>

theorem tier1_ignores_threshold_counterexample:
  "95 \<le> calculate_name_similarity sample_lib (Str ''RAVI KUMAR'') (Str ''RAVI KUMARR'')
   \<and> compare_pair sample_lib near_table 97 30 True 70 0 1 = Inr None
   \<and> detect_duplicates sample_lib near_table 97 30 True 70 = Inr []"
  by code_simp

text \<open>
  C1, amended. For every pair of rows with the required columns and every setting: if
  the name similarity of the pair is at least 95 and at least the name threshold, the
  pair is flagged; the confidence is the name similarity and the only reason is
  \<^verbatim>\<open>High name similarity (<value>%)\<close>, the value written with one decimal. The birth dates
  and the addresses are arbitrary: they have no part in the decision. In a table with
  the required columns the row is part of the result of the scan.
\<close>

theorem tier1_flags_past_the_gate:
  assumes "row_is (df ! i) id1 name1 dob1 addr1" and "row_is (df ! j) id2 name2 dob2 addr2"
    and "95 \<le> calculate_name_similarity lib name1 name2"
    and "of_int name_threshold \<le> calculate_name_similarity lib name1 name2"
  shows "\<exists>d. compare_pair lib df name_threshold dob_tolerance_days check_addr addr_threshold i j
               = Inr (Some d)
     \<and> Record_1_Index d = i \<and> Record_2_Index d = j
     \<and> Name_Similarity d = calculate_name_similarity lib name1 name2
     \<and> Confidence_Score d = calculate_name_similarity lib name1 name2
     \<and> Detection_Reasons d =
         ''High name similarity ('' @ fmt_1f (calculate_name_similarity lib name1 name2) @ ''%)''
     \<and> (well_formed df \<and> i < j \<and> j < length df \<longrightarrow>
          (\<exists>ds. detect_duplicates lib df name_threshold dob_tolerance_days check_addr addr_threshold
                  = Inr ds \<and> d \<in> set ds))"
proof -
  let ?ns = "calculate_name_similarity lib name1 name2"
  have gate: "\<not> ?ns < of_int name_threshold" using assms(4) by simp
  have cl: "classify ?ns dd asim name_threshold dob_tolerance_days check_addr addr_threshold =
      (True, ?ns, [''High name similarity ('' @ fmt_1f ?ns @ ''%)''])" for dd asim
    using assms(3) by (simp add: classify_def)
  from compare_pair_cells [OF assms(1,2), of lib name_threshold dob_tolerance_days check_addr addr_threshold]
  obtain d where d: "compare_pair lib df name_threshold dob_tolerance_days check_addr addr_threshold i j
               = Inr (Some d)"
    and f: "Record_1_Index d = i" "Record_2_Index d = j" "Name_Similarity d = ?ns"
       "Confidence_Score d = ?ns"
       "Detection_Reasons d = ''High name similarity ('' @ fmt_1f ?ns @ ''%)''"
    using gate by (simp add: Let_def cl)
  show ?thesis
    using d f detect_duplicates_emits [OF _ _ _ d] by blast
qed

text \<open>C1, amended, at the sample pair with the threshold at 85: confidence 96.\<close>

theorem tier1_flags_past_the_gate_witness:
  "row_is (near_table ! 0) (Str ''V1'') (Str ''RAVI KUMAR'') (Str ''1970-01-01'') (Str ''PUNE'')
   \<and> row_is (near_table ! 1) (Str ''V2'') (Str ''RAVI KUMARR'') (Str ''1972-01-01'') (Str ''GOA'')
   \<and> 95 \<le> calculate_name_similarity sample_lib (Str ''RAVI KUMAR'') (Str ''RAVI KUMARR'')
   \<and> of_int 85 \<le> calculate_name_similarity sample_lib (Str ''RAVI KUMAR'') (Str ''RAVI KUMARR'')
   \<and> (\<exists>d. compare_pair sample_lib near_table 85 30 True 70 0 1 = Inr (Some d)
        \<and> Confidence_Score d = 96
        \<and> Detection_Reasons d = ''High name similarity (96.0%)''
        \<and> (\<exists>ds. detect_duplicates sample_lib near_table 85 30 True 70 = Inr ds \<and> d \<in> set ds))"
proof -
  have h3: "95 \<le> calculate_name_similarity sample_lib (Str ''RAVI KUMAR'') (Str ''RAVI KUMARR'')"
    and h4: "of_int 85 \<le> calculate_name_similarity sample_lib (Str ''RAVI KUMAR'') (Str ''RAVI KUMARR'')"
    by (simp_all add: sample_similarities)
  from tier1_flags_past_the_gate [OF near_table_rows(1,2) h3 h4, of 30 True 70]
  show ?thesis
    using near_table_rows h3 h4 by (auto simp: sample_similarities sample_formats)
qed

subsection \<open>C2: a table that lacks a required column\<close>

text \<open>
  C2, as the specification states it, fails: nothing checks the columns before the scan.
  A table of two rows without the column \<^verbatim>\<open>Date_of_Birth\<close> whose names differ is scanned to
  the end without any error. With a third row that repeats the first name, the pair of
  the positions 0 and 1 is compared first and rejected on the names; the missing column
  is found only at the pair of the positions 0 and 2, in the middle of the scan.
\<close>

theorem missing_column_aborts_first_counterexample:
  "lacks_column no_dob_pair ''Date_of_Birth''
   \<and> detect_duplicates sample_lib no_dob_pair 85 30 True 70 = Inr []
   \<and> lacks_column no_dob_three ''Date_of_Birth''
   \<and> compare_pair sample_lib no_dob_three 85 30 True 70 0 1 = Inr None
   \<and> compare_pair sample_lib no_dob_three 85 30 True 70 0 2 = Inl (KeyError ''Date_of_Birth'')
   \<and> detect_duplicates sample_lib no_dob_three 85 30 True 70 = Inl (KeyError ''Date_of_Birth'')"
  by code_simp

text \<open>
  C2, amended. The scan has no check of the columns; a missing column raises
  \<^verbatim>\<open>KeyError\<close> when a comparison first reads it. A table of fewer than two rows is
  scanned without error, whatever its columns. A table of at least two rows without the
  column \<^verbatim>\<open>Full_Name\<close> raises at the first pair. A table in which every pair has names
  and fails the name threshold is scanned without error, whatever other columns are
  missing. And whenever the scan raises, the error is the \<^verbatim>\<open>KeyError\<close> of a required
  column that one of the two rows of some pair lacks, raised by the comparison of that
  pair after the comparisons of all pairs before it have been completed.
\<close>

theorem missing_column_found_lazily:
  "(length df < 2 \<longrightarrow>
      detect_duplicates lib df name_threshold dob_tolerance_days check_addr addr_threshold = Inr [])
   \<and> (2 \<le> length df \<and> lacks_column df ''Full_Name'' \<longrightarrow>
      detect_duplicates lib df name_threshold dob_tolerance_days check_addr addr_threshold
        = Inl (KeyError ''Full_Name''))
   \<and> ((\<forall>i j. i < j \<and> j < length df \<longrightarrow>
          (\<exists>n1 n2. (df ! i) ''Full_Name'' = Some n1 \<and> (df ! j) ''Full_Name'' = Some n2
             \<and> calculate_name_similarity lib n1 n2 < of_int name_threshold)) \<longrightarrow>
      detect_duplicates lib df name_threshold dob_tolerance_days check_addr addr_threshold = Inr [])
   \<and> (detect_duplicates lib df name_threshold dob_tolerance_days check_addr addr_threshold = Inl e \<longrightarrow>
      (\<exists>ps i j qs. pairs_of (length df) = ps @ (i, j) # qs
         \<and> (\<forall>p \<in> set ps. \<exists>r. compare_pair lib df name_threshold dob_tolerance_days check_addr
                 addr_threshold (fst p) (snd p) = Inr r)
         \<and> compare_pair lib df name_threshold dob_tolerance_days check_addr addr_threshold i j = Inl e
         \<and> (\<exists>c k. e = KeyError c \<and> c \<in> set required_columns \<and> (k = i \<or> k = j)
               \<and> (df ! k) c = None)))"
proof -
  let ?body = "compare_pair lib df name_threshold dob_tolerance_days check_addr addr_threshold"
  let ?run = "detect_duplicates lib df name_threshold dob_tolerance_days check_addr addr_threshold"
  have one: "length df < 2 \<longrightarrow> ?run = Inr []"
    by (simp add: detect_duplicates_run pairs_of_short)
  have two: "2 \<le> length df \<and> lacks_column df ''Full_Name'' \<longrightarrow> ?run = Inl (KeyError ''Full_Name'')"
  proof
    assume h: "2 \<le> length df \<and> lacks_column df ''Full_Name''"
    then obtain rest where p: "pairs_of (length df) = (0, 1) # rest"
      using pairs_of_first by blast
    from h have "0 < length df" and "\<forall>n < length df. (df ! n) ''Full_Name'' = None"
      by (auto simp: lacks_column_def list_all_length)
    then have "(df ! 0) ''Full_Name'' = None" by blast
    then have "?body 0 1 = Inl (KeyError ''Full_Name'')" by (rule compare_pair_no_name)
    then show "?run = Inl (KeyError ''Full_Name'')"
      by (simp add: detect_duplicates_run p)
  qed
  have three: "(\<forall>i j. i < j \<and> j < length df \<longrightarrow>
          (\<exists>n1 n2. (df ! i) ''Full_Name'' = Some n1 \<and> (df ! j) ''Full_Name'' = Some n2
             \<and> calculate_name_similarity lib n1 n2 < of_int name_threshold)) \<longrightarrow> ?run = Inr []"
  proof
    assume h: "\<forall>i j. i < j \<and> j < length df \<longrightarrow>
          (\<exists>n1 n2. (df ! i) ''Full_Name'' = Some n1 \<and> (df ! j) ''Full_Name'' = Some n2
             \<and> calculate_name_similarity lib n1 n2 < of_int name_threshold)"
    have none: "?body (fst p) (snd p) = Inr None" if "p \<in> set (pairs_of (length df))" for p
    proof -
      from that have "fst p < snd p \<and> snd p < length df" by (auto simp: set_pairs_of)
      with h obtain n1 n2 where "(df ! fst p) ''Full_Name'' = Some n1"
        and "(df ! snd p) ''Full_Name'' = Some n2"
        and "calculate_name_similarity lib n1 n2 < of_int name_threshold" by blast
      then show ?thesis by (rule compare_pair_below_gate)
    qed
    then have "concat (map (\<lambda>p. emitted (?body (fst p) (snd p))) (pairs_of (length df))) = []"
      by (simp add: emitted_def)
    with none show "?run = Inr []"
      by (simp add: detect_duplicates_run run_pairs_Inr_iff)
  qed
  have four: "?run = Inl e \<longrightarrow>
      (\<exists>ps i j qs. pairs_of (length df) = ps @ (i, j) # qs
         \<and> (\<forall>p \<in> set ps. \<exists>r. ?body (fst p) (snd p) = Inr r)
         \<and> ?body i j = Inl e
         \<and> (\<exists>c k. e = KeyError c \<and> c \<in> set required_columns \<and> (k = i \<or> k = j)
               \<and> (df ! k) c = None))"
  proof
    assume "?run = Inl e"
    then have "run_pairs ?body (pairs_of (length df)) = Inl e" by (simp add: detect_duplicates_run)
    from run_pairs_Inl [OF this] obtain ps i j qs where
      s: "pairs_of (length df) = ps @ (i, j) # qs"
      and ok: "\<forall>p \<in> set ps. \<exists>r. ?body (fst p) (snd p) = Inr r" and bad: "?body i j = Inl e"
      by blast
    from compare_pair_Inl [OF bad] s ok bad
    show "\<exists>ps i j qs. pairs_of (length df) = ps @ (i, j) # qs
         \<and> (\<forall>p \<in> set ps. \<exists>r. ?body (fst p) (snd p) = Inr r)
         \<and> ?body i j = Inl e
         \<and> (\<exists>c k. e = KeyError c \<and> c \<in> set required_columns \<and> (k = i \<or> k = j)
               \<and> (df ! k) c = None)"
      by blast
  qed
  from one two three four show ?thesis by (intro conjI)
qed

text \<open>C2, amended, at the four sample tables: one row, no names, no birth dates with
  different names, no birth dates with a repeated name.\<close>

theorem missing_column_found_lazily_witness:
  "length (take 1 no_dob_pair) < 2
   \<and> detect_duplicates sample_lib (take 1 no_dob_pair) 85 30 True 70 = Inr []
   \<and> 2 \<le> length no_name_pair \<and> lacks_column no_name_pair ''Full_Name''
   \<and> detect_duplicates sample_lib no_name_pair 85 30 True 70 = Inl (KeyError ''Full_Name'')
   \<and> detect_duplicates sample_lib no_dob_pair 85 30 True 70 = Inr []
   \<and> detect_duplicates sample_lib no_dob_three 85 30 True 70 = Inl (KeyError ''Date_of_Birth'')
   \<and> (\<exists>ps i j qs. pairs_of (length no_dob_three) = ps @ (i, j) # qs
        \<and> list_all (\<lambda>p. \<exists>r. compare_pair sample_lib no_dob_three 85 30 True 70 (fst p) (snd p) = Inr r) ps
        \<and> compare_pair sample_lib no_dob_three 85 30 True 70 i j = Inl (KeyError ''Date_of_Birth''))"
proof -
  have short: "length (take 1 no_dob_pair) < 2" by simp
  have one: "detect_duplicates sample_lib (take 1 no_dob_pair) 85 30 True 70 = Inr []"
    using missing_column_found_lazily [of "take 1 no_dob_pair" sample_lib 85 30 True 70] short
    by blast
  have two: "detect_duplicates sample_lib no_name_pair 85 30 True 70 = Inl (KeyError ''Full_Name'')"
    using missing_column_found_lazily [of no_name_pair sample_lib 85 30 True 70]
      no_dob_pair_facts(5,6)
    by simp
  have gate: "\<forall>i j. i < j \<and> j < length no_dob_pair \<longrightarrow>
          (\<exists>n1 n2. (no_dob_pair ! i) ''Full_Name'' = Some n1 \<and> (no_dob_pair ! j) ''Full_Name'' = Some n2
             \<and> calculate_name_similarity sample_lib n1 n2 < of_int 85)"
  proof (intro allI impI)
    fix i j :: nat assume "i < j \<and> j < length no_dob_pair"
    then have "i = 0" and "j = 1" using no_dob_pair_facts(1) by auto
    then show "\<exists>n1 n2. (no_dob_pair ! i) ''Full_Name'' = Some n1 \<and> (no_dob_pair ! j) ''Full_Name'' = Some n2
             \<and> calculate_name_similarity sample_lib n1 n2 < of_int 85"
      using no_dob_pair_facts(2,3,4) by simp
  qed
  have three: "detect_duplicates sample_lib no_dob_pair 85 30 True 70 = Inr []"
    using missing_column_found_lazily [of no_dob_pair sample_lib 85 30 True 70] gate
    by blast
  have four: "\<exists>ps i j qs. pairs_of (length no_dob_three) = ps @ (i, j) # qs
        \<and> list_all (\<lambda>p. \<exists>r. compare_pair sample_lib no_dob_three 85 30 True 70 (fst p) (snd p) = Inr r) ps
        \<and> compare_pair sample_lib no_dob_three 85 30 True 70 i j = Inl (KeyError ''Date_of_Birth'')"
    using missing_column_found_lazily [of no_dob_three sample_lib 85 30 True 70 "KeyError ''Date_of_Birth''"]
      no_dob_pair_facts(7)
    unfolding list_all_iff by blast
  from short one two three four no_dob_pair_facts(5,6,7) show ?thesis by simp
qed

subsection \<open>C3: the second tier\<close>

text \<open>
  C3. For every pair of rows with the required columns whose name similarity is below
  95 and at least the name threshold, and whose birth dates differ by at most the
  tolerance: the pair is flagged, the confidence is
  \<open>(name_sim + (100 - dob_diff / 365 * 100)) / 2\<close>, and the reasons are the name similarity
  and the difference of the birth dates in days, joined by \<^verbatim>\<open> | \<close>. In a table with the
  required columns the row is part of the result of the scan.
\<close>

theorem tier2_flags:
  assumes "row_is (df ! i) id1 name1 dob1 addr1" and "row_is (df ! j) id2 name2 dob2 addr2"
    and "calculate_name_similarity lib name1 name2 < 95"
    and "of_int name_threshold \<le> calculate_name_similarity lib name1 name2"
    and "calculate_dob_difference lib dob1 dob2 \<le> dob_tolerance_days"
  shows "\<exists>d. compare_pair lib df name_threshold dob_tolerance_days check_addr addr_threshold i j
               = Inr (Some d)
     \<and> Record_1_Index d = i \<and> Record_2_Index d = j
     \<and> Name_Similarity d = calculate_name_similarity lib name1 name2
     \<and> DOB_Difference_Days d = calculate_dob_difference lib dob1 dob2
     \<and> Confidence_Score d =
         (calculate_name_similarity lib name1 name2
            + (100 - of_int (calculate_dob_difference lib dob1 dob2) / 365 * 100)) / 2
     \<and> Detection_Reasons d =
         ''Name similarity ('' @ fmt_1f (calculate_name_similarity lib name1 name2) @ ''%)''
         @ '' | ''
         @ ''DOB difference ('' @ show_int (calculate_dob_difference lib dob1 dob2) @ '' days)''
     \<and> (well_formed df \<and> i < j \<and> j < length df \<longrightarrow>
          (\<exists>ds. detect_duplicates lib df name_threshold dob_tolerance_days check_addr addr_threshold
                  = Inr ds \<and> d \<in> set ds))"
proof -
  let ?ns = "calculate_name_similarity lib name1 name2"
  let ?dd = "calculate_dob_difference lib dob1 dob2"
  have gate: "\<not> ?ns < of_int name_threshold" using assms(4) by simp
  have cl: "classify ?ns ?dd asim name_threshold dob_tolerance_days check_addr addr_threshold =
      (True, (?ns + (100 - of_int ?dd / 365 * 100)) / 2,
       [''Name similarity ('' @ fmt_1f ?ns @ ''%)'', ''DOB difference ('' @ show_int ?dd @ '' days)''])"
    for asim
    using assms(3,4,5) by (simp add: classify_def)
  from compare_pair_cells [OF assms(1,2), of lib name_threshold dob_tolerance_days check_addr addr_threshold]
  obtain d where d: "compare_pair lib df name_threshold dob_tolerance_days check_addr addr_threshold i j
               = Inr (Some d)"
    and f: "Record_1_Index d = i" "Record_2_Index d = j" "Name_Similarity d = ?ns"
       "DOB_Difference_Days d = ?dd"
       "Confidence_Score d = (?ns + (100 - of_int ?dd / 365 * 100)) / 2"
       "Detection_Reasons d = ''Name similarity ('' @ fmt_1f ?ns @ ''%)'' @ '' | ''
         @ ''DOB difference ('' @ show_int ?dd @ '' days)''"
    using gate by (simp add: Let_def cl)
  show ?thesis
    using d f detect_duplicates_emits [OF _ _ _ d] by blast
qed

text \<open>C3 at the sample pair: similarity 90, one day apart, confidence \<open>6925 / 73\<close>
  (about 94.86).\<close>

theorem tier2_flags_witness:
  "row_is (typo_table ! 0) (Str ''V1'') (Str ''RAVI KUMAR'') (Str ''1970-01-01'') (Str ''PUNE'')
   \<and> row_is (typo_table ! 1) (Str ''V2'') (Str ''RAVI KUAMR'') (Str ''1970-01-02'') (Str ''GOA'')
   \<and> calculate_name_similarity sample_lib (Str ''RAVI KUMAR'') (Str ''RAVI KUAMR'') < 95
   \<and> of_int 85 \<le> calculate_name_similarity sample_lib (Str ''RAVI KUMAR'') (Str ''RAVI KUAMR'')
   \<and> calculate_dob_difference sample_lib (Str ''1970-01-01'') (Str ''1970-01-02'') \<le> 30
   \<and> (\<exists>d. compare_pair sample_lib typo_table 85 30 True 70 0 1 = Inr (Some d)
        \<and> Confidence_Score d = 6925 / 73
        \<and> Detection_Reasons d = ''Name similarity (90.0%) | DOB difference (1 days)''
        \<and> (\<exists>ds. detect_duplicates sample_lib typo_table 85 30 True 70 = Inr ds \<and> d \<in> set ds))"
proof -
  have h3: "calculate_name_similarity sample_lib (Str ''RAVI KUMAR'') (Str ''RAVI KUAMR'') < 95"
    and h4: "of_int 85 \<le> calculate_name_similarity sample_lib (Str ''RAVI KUMAR'') (Str ''RAVI KUAMR'')"
    and h5: "calculate_dob_difference sample_lib (Str ''1970-01-01'') (Str ''1970-01-02'') \<le> 30"
    by (simp_all add: sample_similarities)
  from tier2_flags [OF typo_table_rows(1,2) h3 h4 h5, of True 70]
  show ?thesis
    using typo_table_rows h3 h4 h5 by (auto simp: sample_similarities sample_formats)
qed

subsection \<open>C4: bounds of the confidence\<close>

text \<open>
  C4, as the specification states it, fails. With every setting inside the range of its
  slider no pair passes the date test of the second tier with birth dates more than 365
  days apart, and no pair flagged by the second tier has a confidence below 0; and
  whatever the settings are, the confidence of the second tier is never above 100 (the
  name similarity is below 95 there and the difference of the dates is not negative).
\<close>

theorem tier2_confidence_out_of_bounds_counterexample:
  "\<not> (\<exists>lib df nt tol chk ath i j d.
        settings_in_range nt tol ath \<and> compare_pair lib df nt tol chk ath i j = Inr (Some d)
        \<and> Name_Similarity d < 95 \<and> DOB_Difference_Days d \<le> tol
        \<and> (365 < DOB_Difference_Days d \<or> Confidence_Score d < 0))
   \<and> \<not> (\<exists>lib df nt tol chk ath i j d.
        compare_pair lib df nt tol chk ath i j = Inr (Some d)
        \<and> Name_Similarity d < 95 \<and> DOB_Difference_Days d \<le> tol
        \<and> 100 < Confidence_Score d)"
proof (intro conjI notI)
  assume "\<exists>lib df nt tol chk ath i j d.
        settings_in_range nt tol ath \<and> compare_pair lib df nt tol chk ath i j = Inr (Some d)
        \<and> Name_Similarity d < 95 \<and> DOB_Difference_Days d \<le> tol
        \<and> (365 < DOB_Difference_Days d \<or> Confidence_Score d < 0)"
  then obtain lib df nt tol chk ath i j d where
    r: "settings_in_range nt tol ath" and c: "compare_pair lib df nt tol chk ath i j = Inr (Some d)"
    and t: "DOB_Difference_Days d \<le> tol"
    and bad: "365 < DOB_Difference_Days d \<or> Confidence_Score d < 0"
    by blast
  from r have "0 \<le> nt" "tol \<le> 365" "0 \<le> ath" by (simp_all add: settings_in_range_def)
  from confidence_nonneg [OF c this] t \<open>tol \<le> 365\<close> bad show False by simp
next
  assume "\<exists>lib df nt tol chk ath i j d.
        compare_pair lib df nt tol chk ath i j = Inr (Some d)
        \<and> Name_Similarity d < 95 \<and> DOB_Difference_Days d \<le> tol
        \<and> 100 < Confidence_Score d"
  then obtain lib df nt tol chk ath i j d where
    c: "compare_pair lib df nt tol chk ath i j = Inr (Some d)"
    and t: "Name_Similarity d < 95" "DOB_Difference_Days d \<le> tol"
    and bad: "100 < Confidence_Score d"
    by blast
  from tier2_of_fields [OF c t]
  have eq: "Confidence_Score d =
           (Name_Similarity d + (100 - of_int (DOB_Difference_Days d) / 365 * 100)) / 2"
    and nn: "0 \<le> DOB_Difference_Days d" by simp_all
  have "(0::rat) \<le> of_int (DOB_Difference_Days d) / 365 * 100" using nn by simp
  with eq t(1) have "Confidence_Score d < 100" by simp
  with bad show False by simp
qed

text \<open>
  C4, amended. With every setting inside the range of its slider, every flagged pair
  has a confidence of at least 0. For a pair flagged by the second tier (name similarity
  below 95, birth dates within the tolerance) the confidence is the value of the formula
  \<open>(name_sim + (100 - dob_diff / 365 * 100)) / 2\<close>, the birth dates are at most 365 days
  apart, and the confidence is at least 25 and below 97.5.
\<close>

theorem confidence_within_bounds:
  assumes "compare_pair lib df name_threshold dob_tolerance_days check_addr addr_threshold i j
             = Inr (Some d)"
    and "settings_in_range name_threshold dob_tolerance_days addr_threshold"
  shows "0 \<le> Confidence_Score d
     \<and> (Name_Similarity d < 95 \<and> DOB_Difference_Days d \<le> dob_tolerance_days \<longrightarrow>
          Confidence_Score d =
            (Name_Similarity d + (100 - of_int (DOB_Difference_Days d) / 365 * 100)) / 2
          \<and> Detection_Reasons d =
              ''Name similarity ('' @ fmt_1f (Name_Similarity d) @ ''%)'' @ '' | ''
              @ ''DOB difference ('' @ show_int (DOB_Difference_Days d) @ '' days)''
          \<and> DOB_Difference_Days d \<le> 365
          \<and> 25 \<le> Confidence_Score d \<and> Confidence_Score d < 195 / 2)"
proof -
  from assms(2) have r: "0 \<le> name_threshold" "dob_tolerance_days \<le> 365" "0 \<le> addr_threshold"
    and r50: "50 \<le> name_threshold"
    by (simp_all add: settings_in_range_def)
  have one: "0 \<le> Confidence_Score d" by (rule confidence_nonneg [OF assms(1) r])
  have two: "Confidence_Score d =
            (Name_Similarity d + (100 - of_int (DOB_Difference_Days d) / 365 * 100)) / 2
          \<and> Detection_Reasons d =
              ''Name similarity ('' @ fmt_1f (Name_Similarity d) @ ''%)'' @ '' | ''
              @ ''DOB difference ('' @ show_int (DOB_Difference_Days d) @ '' days)''
          \<and> DOB_Difference_Days d \<le> 365
          \<and> 25 \<le> Confidence_Score d \<and> Confidence_Score d < 195 / 2"
    if t: "Name_Similarity d < 95" "DOB_Difference_Days d \<le> dob_tolerance_days"
  proof -
    from tier2_of_fields [OF assms(1) t]
    have eq: "Confidence_Score d =
           (Name_Similarity d + (100 - of_int (DOB_Difference_Days d) / 365 * 100)) / 2"
      and rs: "Detection_Reasons d =
              ''Name similarity ('' @ fmt_1f (Name_Similarity d) @ ''%)'' @ '' | ''
              @ ''DOB difference ('' @ show_int (DOB_Difference_Days d) @ '' days)''"
      and g: "of_int name_threshold \<le> Name_Similarity d" and nn: "0 \<le> DOB_Difference_Days d"
      by simp_all
    have le: "DOB_Difference_Days d \<le> 365" using t(2) r(2) by simp
    then have "(of_int (DOB_Difference_Days d) :: rat) \<le> 365" by linarith
    then have hi: "(of_int (DOB_Difference_Days d) :: rat) / 365 * 100 \<le> 100" by simp
    have lo: "(0::rat) \<le> of_int (DOB_Difference_Days d) / 365 * 100" using nn by simp
    have "(50::rat) \<le> of_int name_threshold" using r50 by linarith
    then have g50: "50 \<le> Name_Similarity d" using g by simp
    have "25 \<le> Confidence_Score d" using eq hi g50 by simp
    moreover have "Confidence_Score d < 195 / 2" using eq lo t(1) by simp
    ultimately show ?thesis using eq rs le by simp
  qed
  from one two show ?thesis by blast
qed

text \<open>C4, amended, at the sample pair with transposed letters.\<close>

theorem confidence_within_bounds_witness:
  "settings_in_range 85 30 70
   \<and> (\<exists>d. compare_pair sample_lib typo_table 85 30 True 70 0 1 = Inr (Some d)
        \<and> Name_Similarity d < 95 \<and> DOB_Difference_Days d \<le> 30
        \<and> 0 \<le> Confidence_Score d \<and> 25 \<le> Confidence_Score d \<and> Confidence_Score d < 195 / 2
        \<and> Confidence_Score d = 6925 / 73)"
proof -
  have r: "settings_in_range 85 30 70" by (simp add: settings_in_range_def)
  from confidence_within_bounds [OF typo_pair_result r] r typo_pair_result show ?thesis
    by simp
qed

text \<open>Outside the range of the slider the formula does go below 0: with a tolerance of
  730 days, the names of similarity 90 born 730 days apart get the confidence
  \<open>(90 + (100 - 200)) / 2\<close>.\<close>

lemma tier2_negative_beyond_365:
  "map Confidence_Score (emitted (compare_pair sample_lib far_table 85 730 True 70 0 1)) = [- 5]"
  by code_simp

subsection \<open>C5: every pair once, no pair twice\<close>

text \<open>
  C5. For every table and every setting the scan compares each unordered pair of
  distinct positions exactly once: its result is that of one comparison per element of
  the enumeration \<open>pairs_of\<close>, which lists every pair \<open>i < j\<close> of positions once. A table
  with the required columns always yields a result. The result never holds two rows for
  the same unordered pair of positions, never a pair of a position with itself, and in
  every row \<open>Record_1_Index\<close> is strictly below \<open>Record_2_Index\<close>.
\<close>

theorem scan_pairs_unique:
  "(well_formed df \<longrightarrow>
      (\<exists>ds. detect_duplicates lib df name_threshold dob_tolerance_days check_addr addr_threshold = Inr ds))
   \<and> detect_duplicates lib df name_threshold dob_tolerance_days check_addr addr_threshold =
       run_pairs (compare_pair lib df name_threshold dob_tolerance_days check_addr addr_threshold)
         (pairs_of (length df))
   \<and> distinct (pairs_of (length df))
   \<and> set (pairs_of (length df)) = {(i, j). i < j \<and> j < length df}
   \<and> (\<forall>ds. detect_duplicates lib df name_threshold dob_tolerance_days check_addr addr_threshold = Inr ds \<longrightarrow>
         distinct (map (\<lambda>d. {Record_1_Index d, Record_2_Index d}) ds)
         \<and> (\<forall>d \<in> set ds. Record_1_Index d < Record_2_Index d \<and> Record_2_Index d < length df))"
proof -
  let ?run = "detect_duplicates lib df name_threshold dob_tolerance_days check_addr addr_threshold"
  have total: "well_formed df \<longrightarrow> (\<exists>ds. ?run = Inr ds)"
    by (simp add: detect_duplicates_well_formed)
  have emitted_ok: "distinct (map (\<lambda>d. {Record_1_Index d, Record_2_Index d}) ds)
         \<and> (\<forall>d \<in> set ds. Record_1_Index d < Record_2_Index d \<and> Record_2_Index d < length df)"
    if run: "?run = Inr ds" for ds
  proof -
    let ?idx = "\<lambda>d. (Record_1_Index d, Record_2_Index d)"
    let ?ps = "filter (\<lambda>p. \<exists>d. compare_pair lib df name_threshold dob_tolerance_days check_addr
                 addr_threshold (fst p) (snd p) = Inr (Some d)) (pairs_of (length df))"
    have idx: "map ?idx ds = ?ps" by (rule detect_duplicates_indices [OF run])
    have "distinct ?ps" by (simp add: distinct_pairs_of)
    moreover have "\<forall>p \<in> set ?ps. fst p < snd p" by (auto simp: set_pairs_of)
    ultimately have "distinct (map (\<lambda>p. {fst p, snd p}) (map ?idx ds))"
      unfolding idx by (rule distinct_unordered)
    then have one: "distinct (map (\<lambda>d. {Record_1_Index d, Record_2_Index d}) ds)"
      by (simp add: comp_def)
    have two: "\<forall>d \<in> set ds. Record_1_Index d < Record_2_Index d \<and> Record_2_Index d < length df"
      using detect_duplicates_set [OF run] compare_pair_index by blast
    from one two show ?thesis by simp
  qed
  show ?thesis
    using total emitted_ok
    by (simp add: detect_duplicates_run distinct_pairs_of set_pairs_of)
qed

text \<open>C5 at a sample of four rows.\<close>

theorem scan_pairs_unique_witness:
  "well_formed sample_table \<and>
   (\<exists>ds. detect_duplicates sample_lib sample_table 85 30 True 70 = Inr ds \<and>
      distinct (map (\<lambda>d. {Record_1_Index d, Record_2_Index d}) ds) \<and>
      list_all (\<lambda>d. Record_1_Index d < Record_2_Index d \<and> Record_2_Index d < length sample_table) ds)"
proof -
  have wf: "well_formed sample_table" by code_simp
  with scan_pairs_unique [of sample_table sample_lib 85 30 True 70]
  show ?thesis by (auto simp: list_all_iff)
qed

subsection \<open>C6: address matching disabled\<close>

text \<open>
  C6, as the specification states it, fails in its last part: the address similarity
  recorded when address matching is disabled is the number 0, which is also a computed
  similarity. On the sample, the scan with address matching disabled and the scan with
  it enabled (where the similarity of a missing address is computed as 0) return the
  same rows.
\<close>

theorem disabled_address_not_distinguished_counterexample:
  "detect_duplicates sample_lib missing_table 85 30 False 70 =
     detect_duplicates sample_lib missing_table 85 30 True 70
   \<and> (case detect_duplicates sample_lib missing_table 85 30 False 70 of
         Inl e \<Rightarrow> [] | Inr ds \<Rightarrow> map Address_Similarity ds) = [0]
   \<and> calculate_address_similarity sample_lib NaN (Str ''PUNE'') = 0"
  by code_simp

text \<open>
  C6, amended. When address matching is disabled, every row of the result records the
  address similarity 0 and was flagged by the first or the second tier (the third never
  fires); and the addresses take no part in the comparison: with other addresses in the
  two rows, the comparison returns the same row, but for the two address fields copied
  into it. The recorded 0 is not distinguished from a computed similarity of 0.
\<close>

theorem address_disabled:
  "(detect_duplicates lib df name_threshold dob_tolerance_days False addr_threshold = Inr ds
      \<and> d \<in> set ds \<longrightarrow>
      Address_Similarity d = 0
      \<and> ((Confidence_Score d = Name_Similarity d
           \<and> Detection_Reasons d = ''High name similarity ('' @ fmt_1f (Name_Similarity d) @ ''%)'')
         \<or> (Confidence_Score d =
               (Name_Similarity d + (100 - of_int (DOB_Difference_Days d) / 365 * 100)) / 2
             \<and> Detection_Reasons d =
                 ''Name similarity ('' @ fmt_1f (Name_Similarity d) @ ''%)'' @ '' | ''
                 @ ''DOB difference ('' @ show_int (DOB_Difference_Days d) @ '' days)'')))
   \<and> (compare_pair lib df name_threshold dob_tolerance_days False addr_threshold i j = Inr (Some e)
      \<and> (\<forall>c. c \<noteq> ''Address'' \<longrightarrow> (df' ! i) c = (df ! i) c \<and> (df' ! j) c = (df ! j) c)
      \<and> (df' ! i) ''Address'' = Some a1 \<and> (df' ! j) ''Address'' = Some a2 \<longrightarrow>
      compare_pair lib df' name_threshold dob_tolerance_days False addr_threshold i j =
        Inr (Some (e\<lparr>Address_1 := a1, Address_2 := a2\<rparr>)))"
proof (rule conjI; rule impI)
  assume h: "detect_duplicates lib df name_threshold dob_tolerance_days False addr_threshold = Inr ds
      \<and> d \<in> set ds"
  then obtain i' j' where
    "compare_pair lib df name_threshold dob_tolerance_days False addr_threshold i' j' = Inr (Some d)"
    using detect_duplicates_set [of lib df name_threshold dob_tolerance_days False addr_threshold ds d]
    by blast
  then show "Address_Similarity d = 0
      \<and> ((Confidence_Score d = Name_Similarity d
           \<and> Detection_Reasons d = ''High name similarity ('' @ fmt_1f (Name_Similarity d) @ ''%)'')
         \<or> (Confidence_Score d =
               (Name_Similarity d + (100 - of_int (DOB_Difference_Days d) / 365 * 100)) / 2
             \<and> Detection_Reasons d =
                 ''Name similarity ('' @ fmt_1f (Name_Similarity d) @ ''%)'' @ '' | ''
                 @ ''DOB difference ('' @ show_int (DOB_Difference_Days d) @ '' days)''))"
    by (rule compare_pair_address_disabled)
next
  assume h: "compare_pair lib df name_threshold dob_tolerance_days False addr_threshold i j = Inr (Some e)
      \<and> (\<forall>c. c \<noteq> ''Address'' \<longrightarrow> (df' ! i) c = (df ! i) c \<and> (df' ! j) c = (df ! j) c)
      \<and> (df' ! i) ''Address'' = Some a1 \<and> (df' ! j) ''Address'' = Some a2"
  from h have c: "compare_pair lib df name_threshold dob_tolerance_days False addr_threshold i j
      = Inr (Some e)" by (rule conjunct1)
  from h have same: "\<forall>c. c \<noteq> ''Address'' \<longrightarrow> (df' ! i) c = (df ! i) c \<and> (df' ! j) c = (df ! j) c"
    by (rule conjunct2 [THEN conjunct1])
  from h have a1: "(df' ! i) ''Address'' = Some a1"
    by (rule conjunct2 [THEN conjunct2, THEN conjunct1])
  from h have a2: "(df' ! j) ''Address'' = Some a2"
    by (rule conjunct2 [THEN conjunct2, THEN conjunct2])
  show "compare_pair lib df' name_threshold dob_tolerance_days False addr_threshold i j =
        Inr (Some (e\<lparr>Address_1 := a1, Address_2 := a2\<rparr>))"
    by (rule compare_pair_other_addresses [OF c same a1 a2])
qed

text \<open>C6, amended, at the sample and the same rows with other addresses.\<close>

theorem address_disabled_witness:
  "(\<exists>ds d. detect_duplicates sample_lib missing_table 85 30 False 70 = Inr ds \<and> d \<in> set ds
       \<and> Address_Similarity d = 0 \<and> Confidence_Score d = Name_Similarity d)
   \<and> (\<exists>e. compare_pair sample_lib missing_table 85 30 False 70 0 1 = Inr (Some e)
       \<and> (readdressed_table ! 0) ''Address'' = Some (Str ''GOA'')
       \<and> (readdressed_table ! 1) ''Address'' = Some (Str ''DELHI'')
       \<and> compare_pair sample_lib readdressed_table 85 30 False 70 0 1 =
           Inr (Some (e\<lparr>Address_1 := Str ''GOA'', Address_2 := Str ''DELHI''\<rparr>)))"
proof -
  let ?d = "\<lparr>Record_1_Index = 0, Record_2_Index = 1,
           Voter_ID_1 = Str ''V1'', Voter_ID_2 = Str ''V2'',
           Name_1 = Str ''RAVI KUMAR'', Name_2 = Str ''RAVI KUMAR'',
           DOB_1 = NaN, DOB_2 = Str ''1970-01-01'',
           Address_1 = NaN, Address_2 = Str ''PUNE'',
           Name_Similarity = 100, DOB_Difference_Days = 999999, Address_Similarity = 0,
           Confidence_Score = 100,
           Detection_Reasons = ''High name similarity (100.0%)''\<rparr>"
  have a: "(readdressed_table ! 0) ''Address'' = Some (Str ''GOA'')"
    "(readdressed_table ! 1) ''Address'' = Some (Str ''DELHI'')"
    by (simp_all add: readdressed_table_def voter_def)
  note inst = address_disabled [where lib = sample_lib and df = missing_table
      and name_threshold = 85 and dob_tolerance_days = 30 and addr_threshold = 70
      and ds = "[?d]" and d = ?d and e = ?d and i = 0 and j = 1 and df' = readdressed_table
      and ?a1.0 = "Str ''GOA''" and ?a2.0 = "Str ''DELHI''"]
  from inst disabled_scan_result
  have one: "Address_Similarity ?d = 0" by simp
  from inst disabled_pair_result readdressed_same a
  have two: "compare_pair sample_lib readdressed_table 85 30 False 70 0 1 =
           Inr (Some (?d\<lparr>Address_1 := Str ''GOA'', Address_2 := Str ''DELHI''\<rparr>))"
    by blast
  show ?thesis
    using one two a disabled_scan_result disabled_pair_result by simp
qed

subsection \<open>C7: monotonicity in the thresholds\<close>

text \<open>
  C7. For every table with the required columns and otherwise fixed settings: with a
  higher name threshold the scan returns the rows of the lower threshold whose name
  similarity reaches the higher one, so never more rows; with a lower address threshold
  the rows flagged by the third tier include all those of the higher threshold, so
  never fewer. The rows flagged by the third tier are those with a name similarity
  below 95 and birth dates beyond the tolerance.
\<close>

theorem thresholds_monotone:
  assumes wf: "well_formed df"
    and nt: "name_threshold \<le> name_threshold'"
    and ath: "addr_threshold' \<le> addr_threshold"
  shows "\<exists>ds ds' es'.
      detect_duplicates lib df name_threshold dob_tolerance_days check_addr addr_threshold = Inr ds
    \<and> detect_duplicates lib df name_threshold' dob_tolerance_days check_addr addr_threshold = Inr ds'
    \<and> detect_duplicates lib df name_threshold dob_tolerance_days check_addr addr_threshold' = Inr es'
    \<and> ds' = filter (\<lambda>d. of_int name_threshold' \<le> Name_Similarity d) ds
    \<and> length ds' \<le> length ds
    \<and> (\<forall>d \<in> set ds. flagged_by_tier3 d \<longleftrightarrow>
          Name_Similarity d < 95 \<and> dob_tolerance_days < DOB_Difference_Days d)
    \<and> filter flagged_by_tier3 ds =
        filter (\<lambda>d. addr_threshold \<le> Address_Similarity d) (filter flagged_by_tier3 es')
    \<and> length (filter flagged_by_tier3 ds) \<le> length (filter flagged_by_tier3 es')"
proof -
  let ?body = "\<lambda>nt ath p. emitted (compare_pair lib df nt dob_tolerance_days check_addr ath (fst p) (snd p))"
  let ?ps = "pairs_of (length df)"
  let ?ds = "concat (map (?body name_threshold addr_threshold) ?ps)"
  let ?ds' = "concat (map (?body name_threshold' addr_threshold) ?ps)"
  let ?es' = "concat (map (?body name_threshold addr_threshold') ?ps)"
  have rows: "\<exists>id1 name1 dob1 addr1 id2 name2 dob2 addr2.
        row_is (df ! fst p) id1 name1 dob1 addr1 \<and> row_is (df ! snd p) id2 name2 dob2 addr2"
    if "p \<in> set ?ps" for p
  proof -
    from that have "fst p < length df" and "snd p < length df"
      by (auto simp: set_pairs_of)
    then have "has_columns (df ! fst p)" and "has_columns (df ! snd p)"
      using wf by (simp_all add: well_formed_nth)
    then show ?thesis by (auto simp: has_columns_row_is)
  qed
  have one: "?ds' = filter (\<lambda>d. of_int name_threshold' \<le> Name_Similarity d) ?ds"
  proof (rule concat_map_filter)
    fix p assume "p \<in> set ?ps"
    from rows [OF this] nt
    show "?body name_threshold' addr_threshold p =
          filter (\<lambda>d. of_int name_threshold' \<le> Name_Similarity d) (?body name_threshold addr_threshold p)"
      using compare_pair_raise_name_threshold by blast
  qed
  have two: "filter flagged_by_tier3 ?ds =
        filter (\<lambda>d. addr_threshold \<le> Address_Similarity d) (filter flagged_by_tier3 ?es')"
  proof (rule concat_map_filter2)
    fix p assume "p \<in> set ?ps"
    from rows [OF this] ath
    show "filter flagged_by_tier3 (?body name_threshold addr_threshold p) =
          filter (\<lambda>d. addr_threshold \<le> Address_Similarity d)
            (filter flagged_by_tier3 (?body name_threshold addr_threshold' p))"
      using compare_pair_lower_addr_threshold by blast
  qed
  have run: "detect_duplicates lib df name_threshold dob_tolerance_days check_addr addr_threshold = Inr ?ds"
    "detect_duplicates lib df name_threshold' dob_tolerance_days check_addr addr_threshold = Inr ?ds'"
    "detect_duplicates lib df name_threshold dob_tolerance_days check_addr addr_threshold' = Inr ?es'"
    using wf by (simp_all add: detect_duplicates_well_formed)
  have three: "\<forall>d \<in> set ?ds. flagged_by_tier3 d \<longleftrightarrow>
          Name_Similarity d < 95 \<and> dob_tolerance_days < DOB_Difference_Days d"
  proof
    fix d assume "d \<in> set ?ds"
    then obtain i j where
      "compare_pair lib df name_threshold dob_tolerance_days check_addr addr_threshold i j = Inr (Some d)"
      by (auto simp: in_emitted)
    then show "flagged_by_tier3 d \<longleftrightarrow>
          Name_Similarity d < 95 \<and> dob_tolerance_days < DOB_Difference_Days d"
      by (rule flagged_by_tier3_iff)
  qed
  have len1: "length ?ds' \<le> length ?ds" unfolding one by (rule length_filter_le)
  have len2: "length (filter flagged_by_tier3 ?ds) \<le> length (filter flagged_by_tier3 ?es')"
    unfolding two by (rule length_filter_le)
  show ?thesis
    using run one two three len1 len2 by blast
qed

text \<open>C7 at the sample: raising the name threshold from 85 to 92 loses the pair of
  similarity 90; lowering the address threshold from 70 to 50 keeps it.\<close>

theorem thresholds_monotone_witness:
  "well_formed tier3_table \<and> (85::int) \<le> 92 \<and> (50::int) \<le> 70
   \<and> (\<exists>ds ds' es'.
        detect_duplicates sample_lib tier3_table 85 30 True 70 = Inr ds
      \<and> detect_duplicates sample_lib tier3_table 92 30 True 70 = Inr ds'
      \<and> detect_duplicates sample_lib tier3_table 85 30 True 50 = Inr es'
      \<and> length ds = 1 \<and> length ds' = 0 \<and> length ds' \<le> length ds
      \<and> length (filter flagged_by_tier3 ds) = 1
      \<and> length (filter flagged_by_tier3 ds) \<le> length (filter flagged_by_tier3 es'))"
proof -
  have le1: "(85::int) \<le> 92" and le2: "(50::int) \<le> 70" by simp_all
  from thresholds_monotone [OF tier3_scan_results(4) le1 le2, of sample_lib 30 True]
  obtain ds ds' es' where
    r: "detect_duplicates sample_lib tier3_table 85 30 True 70 = Inr ds"
      "detect_duplicates sample_lib tier3_table 92 30 True 70 = Inr ds'"
      "detect_duplicates sample_lib tier3_table 85 30 True 50 = Inr es'"
    and m: "length ds' \<le> length ds"
      "length (filter flagged_by_tier3 ds) \<le> length (filter flagged_by_tier3 es')"
    by blast
  from r tier3_scan_results(1,2) have "length ds = 1" and "length ds' = 0"
    and "length (filter flagged_by_tier3 ds) = 1"
    using tier3_pair_flagged by auto
  with r m tier3_scan_results(4) show ?thesis by auto
qed

subsection \<open>C8: symmetry of the metrics\<close>

text \<open>
  C8, at an input where the code breaks it. The specification asks that the difference
  of two birth dates be the same in both orders. The source computes
  \<^verbatim>\<open>abs((date1 - date2).days)\<close>: the days of the difference are rounded down before the
  absolute value is taken. For a date at midnight and the same day at noon the result is
  1 day in one order (minus twelve hours have \<^verbatim>\<open>days == -1\<close>) and 0 days in the other.
\<close>

theorem dob_difference_order_dependent:
  "calculate_dob_difference sample_lib (Str ''1970-01-01'') (Str ''1970-01-01 12:00:00'') = 1
   \<and> calculate_dob_difference sample_lib (Str ''1970-01-01 12:00:00'') (Str ''1970-01-01'') = 0"
  by code_simp

text \<open>
  The extent of the defect: for two cells that \<^verbatim>\<open>pd.to_datetime\<close> reads as Timestamps which
  can be subtracted, the two orders give the same number exactly when the Timestamps
  are a whole number of days apart, as two dates without a time of day are.
\<close>

lemma dob_difference_symmetric_iff:
  assumes "\<not> isna dob1" and "\<not> isna dob2"
    and "to_datetime lib (str dob1) = Some date1" and "to_datetime lib (str dob2) = Some date2"
    and "timedelta date1 date2 = Some x"
  shows "calculate_dob_difference lib dob1 dob2 = calculate_dob_difference lib dob2 dob1
         \<longleftrightarrow> ns_per_day dvd x"
proof -
  have swapped: "timedelta date2 date1 = Some (- x)" using assms(5) by (rule timedelta_swap)
  have "calculate_dob_difference lib dob1 dob2 = \<bar>days x\<bar>"
    using assms by (simp add: calculate_dob_difference_def)
  moreover have "calculate_dob_difference lib dob2 dob1 = \<bar>days (- x)\<bar>"
    using assms(1-4) swapped by (simp add: calculate_dob_difference_def)
  ultimately show ?thesis using days_swap [of x] by auto
qed

subsection \<open>C9: missing fields\<close>

text \<open>
  C9, as the specification states it, fails: a record with a missing birth date and a
  missing address is flagged all the same when its name matches. The first row of the
  sample has neither; its name equals that of the second row, and the first tier flags
  the pair with confidence 100.
\<close>

theorem missing_field_never_flagged_counterexample:
  "(missing_table ! 0) ''Date_of_Birth'' = Some NaN \<and> (missing_table ! 0) ''Address'' = Some NaN
   \<and> detect_duplicates sample_lib missing_table 85 30 True 70 =
     Inr [\<lparr>Record_1_Index = 0, Record_2_Index = 1,
           Voter_ID_1 = Str ''V1'', Voter_ID_2 = Str ''V2'',
           Name_1 = Str ''RAVI KUMAR'', Name_2 = Str ''RAVI KUMAR'',
           DOB_1 = NaN, DOB_2 = Str ''1970-01-01'',
           Address_1 = NaN, Address_2 = Str ''PUNE'',
           Name_Similarity = 100, DOB_Difference_Days = 999999, Address_Similarity = 0,
           Confidence_Score = 100,
           Detection_Reasons = ''High name similarity (100.0%)''\<rparr>]"
  by code_simp

text \<open>
  C9, amended. The three metrics are total and return their sentinel on a missing cell,
  in either position: name similarity 0, address similarity 0, date difference 999999.
  A table with the required columns always yields a result, whatever cells are missing.
  With the settings inside the ranges of their sliders, every flagged pair has a name in
  both records: a record with a missing name is never flagged. A record with a missing
  birth date is never flagged by the second tier: a flagged pair that holds it records
  the difference 999999 and was flagged on a name similarity of at least 95 or on the
  addresses. A record with a missing address is never flagged by the third tier: a
  flagged pair that holds it records the address similarity 0 and was flagged on a name
  similarity of at least 95 or on the birth dates.
\<close>

theorem missing_fields_fail_to_match:
  "calculate_name_similarity lib NaN c = 0 \<and> calculate_name_similarity lib c NaN = 0
   \<and> calculate_address_similarity lib NaN c = 0 \<and> calculate_address_similarity lib c NaN = 0
   \<and> calculate_dob_difference lib NaN c = 999999 \<and> calculate_dob_difference lib c NaN = 999999
   \<and> (well_formed df \<longrightarrow>
        (\<exists>ds. detect_duplicates lib df name_threshold dob_tolerance_days check_addr addr_threshold
                = Inr ds))
   \<and> (detect_duplicates lib df name_threshold dob_tolerance_days check_addr addr_threshold = Inr ds
        \<and> d \<in> set ds \<and> (k = Record_1_Index d \<or> k = Record_2_Index d)
        \<and> settings_in_range name_threshold dob_tolerance_days addr_threshold \<longrightarrow>
        (df ! k) ''Full_Name'' \<noteq> Some NaN
        \<and> ((df ! k) ''Date_of_Birth'' = Some NaN \<longrightarrow>
             DOB_Difference_Days d = 999999
             \<and> (95 \<le> Name_Similarity d \<or> (check_addr \<and> addr_threshold \<le> Address_Similarity d)))
        \<and> ((df ! k) ''Address'' = Some NaN \<longrightarrow>
             Address_Similarity d = 0
             \<and> (95 \<le> Name_Similarity d \<or> DOB_Difference_Days d \<le> dob_tolerance_days)))"
proof -
  have scan: "(df ! k) ''Full_Name'' \<noteq> Some NaN
        \<and> ((df ! k) ''Date_of_Birth'' = Some NaN \<longrightarrow>
             DOB_Difference_Days d = 999999
             \<and> (95 \<le> Name_Similarity d \<or> (check_addr \<and> addr_threshold \<le> Address_Similarity d)))
        \<and> ((df ! k) ''Address'' = Some NaN \<longrightarrow>
             Address_Similarity d = 0
             \<and> (95 \<le> Name_Similarity d \<or> DOB_Difference_Days d \<le> dob_tolerance_days))"
    if run: "detect_duplicates lib df name_threshold dob_tolerance_days check_addr addr_threshold = Inr ds"
      and mem: "d \<in> set ds" and k: "k = Record_1_Index d \<or> k = Record_2_Index d"
      and r: "settings_in_range name_threshold dob_tolerance_days addr_threshold"
  proof -
    from detect_duplicates_set [OF run, of d] mem obtain i j where
      c: "compare_pair lib df name_threshold dob_tolerance_days check_addr addr_threshold i j
            = Inr (Some d)"
      by blast
    from compare_pair_index [OF c] k have "k = i \<or> k = j" by simp
    from flagged_with_missing [OF c this r] show ?thesis .
  qed
  have total: "well_formed df \<longrightarrow>
        (\<exists>ds. detect_duplicates lib df name_threshold dob_tolerance_days check_addr addr_threshold
                = Inr ds)"
    by (simp add: detect_duplicates_well_formed)
  show ?thesis
    using scan total by (simp add: metrics_of_missing)
qed

text \<open>C9, amended, at the sample with the missing birth date and address.\<close>

theorem missing_fields_fail_to_match_witness:
  "well_formed missing_table \<and> settings_in_range 85 30 70
   \<and> (\<exists>ds d. detect_duplicates sample_lib missing_table 85 30 True 70 = Inr ds \<and> d \<in> set ds
        \<and> 0 = Record_1_Index d
        \<and> (missing_table ! 0) ''Full_Name'' \<noteq> Some NaN
        \<and> (missing_table ! 0) ''Date_of_Birth'' = Some NaN
        \<and> (missing_table ! 0) ''Address'' = Some NaN
        \<and> DOB_Difference_Days d = 999999 \<and> Address_Similarity d = 0 \<and> 95 \<le> Name_Similarity d)"
proof -
  have wf: "well_formed missing_table" and r: "settings_in_range 85 30 70"
    and cells: "(missing_table ! 0) ''Date_of_Birth'' = Some NaN"
      "(missing_table ! 0) ''Address'' = Some NaN"
    by code_simp+
  let ?d = "\<lparr>Record_1_Index = 0, Record_2_Index = 1,
           Voter_ID_1 = Str ''V1'', Voter_ID_2 = Str ''V2'',
           Name_1 = Str ''RAVI KUMAR'', Name_2 = Str ''RAVI KUMAR'',
           DOB_1 = NaN, DOB_2 = Str ''1970-01-01'',
           Address_1 = NaN, Address_2 = Str ''PUNE'',
           Name_Similarity = 100, DOB_Difference_Days = 999999, Address_Similarity = 0,
           Confidence_Score = 100,
           Detection_Reasons = ''High name similarity (100.0%)''\<rparr>"
  from missing_fields_fail_to_match [where lib = sample_lib and df = missing_table
      and name_threshold = 85 and dob_tolerance_days = 30 and check_addr = True
      and addr_threshold = 70 and ds = "[?d]" and d = ?d and k = 0]
    missing_pair_result r cells
  have "(missing_table ! 0) ''Full_Name'' \<noteq> Some NaN
      \<and> DOB_Difference_Days ?d = 999999 \<and> Address_Similarity ?d = 0"
    by simp
  then show ?thesis
    using wf r cells missing_pair_result by simp
qed

subsection \<open>C10: the set of compared pairs is redundant\<close>

text \<open>
  C10. In the nested loops over the positions \<open>i < j\<close>, the key \<^verbatim>\<open>tuple(sorted([i, j]))\<close>
  computed at an iteration differs from every key computed before: the keys, listed in
  the order of the iterations, are pairwise distinct, so the branch that skips a pair
  already in \<^verbatim>\<open>compared\<close> is never taken. The scan without the set and its test returns
  the same result (the same rows in the same order, or the same error) for every table
  and every setting.
\<close>

theorem compared_set_is_redundant:
  "detect_duplicates lib df name_threshold dob_tolerance_days check_addr addr_threshold =
     detect_duplicates_noset lib df name_threshold dob_tolerance_days check_addr addr_threshold
   \<and> distinct (map (\<lambda>(i, j). sorted_pair i j) (pairs_of (length df)))"
  by (simp add: detect_duplicates_run detect_duplicates_noset_run sorted_pair_pairs_of
      distinct_pairs_of)

end
